theory Spec2Isabelle
  imports Main "HOL-Library.Sublist"
begin

section \<open>JavaScript strings and values\<close>

text \<open>
  A JavaScript string is modelled as a \<^typ>\<open>string\<close>: a list of 8-bit characters, read as
  the UTF-16 code units U+0000 to U+00FF. On this range \<open>String.prototype.toLowerCase\<close>
  maps the letters A to Z and the Latin-1 capitals U+00C0 to U+00DE (without the
  multiplication sign U+00D7) to the code unit 32 above, which is the same code unit with
  bit 5 set, and leaves every other code unit alone.
\<close>

definition toLowerCase_char :: "char \<Rightarrow> char" where
  "toLowerCase_char c =
     (let n = (of_char c :: nat) in
      if (65 \<le> n \<and> n \<le> 90) \<or> (192 \<le> n \<and> n \<le> 222 \<and> n \<noteq> 215)
      then (case c of Char b0 b1 b2 b3 b4 b5 b6 b7 \<Rightarrow> Char b0 b1 b2 b3 b4 True b6 b7)
      else c)"

definition toLowerCase :: "string \<Rightarrow> string" where
  "toLowerCase s = map toLowerCase_char s"

text \<open>\<open>s.includes(t)\<close>: \<open>t\<close> occurs in \<open>s\<close> at some position.\<close>

fun str_includes :: "string \<Rightarrow> string \<Rightarrow> bool" where
  "str_includes [] t = (t = [])"
| "str_includes (c # cs) t = (prefix t (c # cs) \<or> str_includes cs t)"

text \<open>
  \<open>s.trim()\<close> removes white space and line terminators at both ends; in the range
  modelled these are U+0009 to U+000D, U+0020 and U+00A0.
\<close>

definition isWhiteSpace :: "char \<Rightarrow> bool" where
  "isWhiteSpace c = (let n = (of_char c :: nat) in (9 \<le> n \<and> n \<le> 13) \<or> n = 32 \<or> n = 160)"

definition trim :: "string \<Rightarrow> string" where
  "trim s = rev (dropWhile isWhiteSpace (rev (dropWhile isWhiteSpace s)))"

text \<open>\<open>xs.join(sep)\<close> on an array of strings.\<close>

fun join :: "string \<Rightarrow> string list \<Rightarrow> string" where
  "join sep [] = []"
| "join sep [x] = x"
| "join sep (x # y # ys) = x @ sep @ join sep (y # ys)"

text \<open>
  Values of type \<open>any\<close>/\<open>unknown\<close>. A JavaScript number is an IEEE double; its carrier
  is the type parameter \<open>'n\<close>, and what the runtime does with a number (truthiness, string
  coercion, locale formatting) is a field of the record \<open>runtime\<close> below. An object is the
  list of its own properties in insertion order.
\<close>

datatype 'n jsval =
    JUndefined
  | JNull
  | JBool bool
  | JNum 'n
  | JStr string
  | JArr "'n jsval list"
  | JObj "(string \<times> 'n jsval) list"

text \<open>
  The built-ins and libraries the source calls and that are not part of it:
  \<^item> \<open>num_falsy n\<close>: \<open>n\<close> is \<open>+0\<close>, \<open>-0\<close> or \<open>NaN\<close>;
  \<^item> \<open>num_toString n\<close>: \<open>String(n)\<close>;
  \<^item> \<open>num_toLocaleString n\<close>: \<open>n.toLocaleString()\<close> in the locale of the runtime;
  \<^item> \<open>new_Date_other v\<close>: the time value of \<open>new Date(v)\<close> (milliseconds since the epoch,
    UTC) for a value that is not a UTC timestamp of the form read below, \<open>None\<close> for an
    invalid date;
  \<^item> \<open>tz_offset_minutes t\<close>: the offset of local time from UTC, in minutes, at the time
    value \<open>t\<close> in the time zone of the runtime;
  \<^item> \<open>JSON_parse s\<close>: \<open>JSON.parse(s)\<close>, \<open>None\<close> when it throws;
  \<^item> \<open>now_iso\<close>: \<open>new Date().toISOString()\<close>.
\<close>

record 'n runtime =
  num_falsy :: "'n \<Rightarrow> bool"
  num_toString :: "'n \<Rightarrow> string"
  num_toLocaleString :: "'n \<Rightarrow> string"
  new_Date_other :: "'n jsval \<Rightarrow> int option"
  tz_offset_minutes :: "int \<Rightarrow> int"
  JSON_parse :: "string \<Rightarrow> 'n jsval option"
  now_iso :: string

text \<open>Truthiness (\<open>ToBoolean\<close>).\<close>

fun truthy :: "'n runtime \<Rightarrow> 'n jsval \<Rightarrow> bool" where
  "truthy rt JUndefined = False"
| "truthy rt JNull = False"
| "truthy rt (JBool b) = b"
| "truthy rt (JNum n) = (\<not> num_falsy rt n)"
| "truthy rt (JStr s) = (s \<noteq> [])"
| "truthy rt (JArr xs) = True"
| "truthy rt (JObj kvs) = True"

text \<open>
  \<open>String(v)\<close>. An array is the comma-joined coercion of its elements, where \<open>null\<close> and
  \<open>undefined\<close> elements give the empty string; a plain object is \<open>[object Object]\<close>.
\<close>

fun String_of :: "'n runtime \<Rightarrow> 'n jsval \<Rightarrow> string" where
  "String_of rt JUndefined = ''undefined''"
| "String_of rt JNull = ''null''"
| "String_of rt (JBool b) = (if b then ''true'' else ''false'')"
| "String_of rt (JNum n) = num_toString rt n"
| "String_of rt (JStr s) = s"
| "String_of rt (JArr xs) =
     join '','' (map (\<lambda>x. if x = JNull \<or> x = JUndefined then [] else String_of rt x) xs)"
| "String_of rt (JObj kvs) = ''[object Object]''"

text \<open>
  Property read \<open>v[k]\<close> on a value that is neither \<open>null\<close> nor \<open>undefined\<close>, for a key
  that is no built-in property: an own property of an object, \<open>undefined\<close> otherwise.
\<close>

fun get_prop :: "'n jsval \<Rightarrow> string \<Rightarrow> 'n jsval" where
  "get_prop (JObj kvs) k = (case map_of kvs k of Some v \<Rightarrow> v | None \<Rightarrow> JUndefined)"
| "get_prop v k = JUndefined"

text \<open>Property write on an object literal: an existing key keeps its place.\<close>

fun obj_set :: "string \<Rightarrow> 'n jsval \<Rightarrow> (string \<times> 'n jsval) list \<Rightarrow> (string \<times> 'n jsval) list" where
  "obj_set k v [] = [(k, v)]"
| "obj_set k v ((k', v') # kvs) = (if k' = k then (k, v) # kvs else (k', v') # obj_set k v kvs)"

text \<open>The own properties an object spread \<open>{...v}\<close> copies.\<close>

fun own_entries :: "'n jsval \<Rightarrow> (string \<times> 'n jsval) list" where
  "own_entries (JObj kvs) = kvs"
| "own_entries v = []"


subsection \<open>Dates\<close>

text \<open>
  \<open>new Date(s)\<close> on a string of the form \<open>YYYY-MM-DDTHH:mm:ssZ\<close> with every field in
  range: the time value is fixed by the language, as the days since the epoch of the
  calendar date and the time of day, in UTC. Every other argument is left to the runtime.
\<close>

definition digit_of :: "char \<Rightarrow> nat option" where
  "digit_of c = (let n = (of_char c :: nat) in if 48 \<le> n \<and> n \<le> 57 then Some (n - 48) else None)"

fun digits_value :: "string \<Rightarrow> nat \<Rightarrow> nat option" where
  "digits_value [] acc = Some acc"
| "digits_value (c # cs) acc =
     (case digit_of c of None \<Rightarrow> None | Some d \<Rightarrow> digits_value cs (10 * acc + d))"

definition isLeapYear :: "int \<Rightarrow> bool" where
  "isLeapYear y = (y mod 4 = 0 \<and> (y mod 100 \<noteq> 0 \<or> y mod 400 = 0))"

definition daysInMonth :: "int \<Rightarrow> int \<Rightarrow> int" where
  "daysInMonth y m =
     (if m = 2 then (if isLeapYear y then 29 else 28)
      else if m = 4 \<or> m = 6 \<or> m = 9 \<or> m = 11 then 30 else 31)"

text \<open>The day number of a date of the proleptic Gregorian calendar; day 0 is 1 January 1970.\<close>

definition days_from_civil :: "int \<Rightarrow> int \<Rightarrow> int \<Rightarrow> int" where
  "days_from_civil y m d =
     (let y' = (if m \<le> 2 then y - 1 else y);
          era = y' div 400;
          yoe = y' - era * 400;
          doy = (153 * (if m > 2 then m - 3 else m + 9) + 2) div 5 + d - 1;
          doe = yoe * 365 + yoe div 4 - yoe div 100 + doy
      in era * 146097 + doe - 719468)"

text \<open>Year, month and day of a day number.\<close>

definition civil_from_days :: "int \<Rightarrow> int \<times> int \<times> int" where
  "civil_from_days z =
     (let z' = z + 719468;
          era = z' div 146097;
          doe = z' - era * 146097;
          yoe = (doe - doe div 1460 + doe div 36524 - doe div 146096) div 365;
          doy = doe - (365 * yoe + yoe div 4 - yoe div 100);
          mp = (5 * doy + 2) div 153;
          d = doy - (153 * mp + 2) div 5 + 1;
          m = (if mp < 10 then mp + 3 else mp - 9);
          y = yoe + era * 400
      in (if m \<le> 2 then y + 1 else y, m, d))"

definition parse_utc_timestamp :: "string \<Rightarrow> int option" where
  "parse_utc_timestamp s =
     (if length s = 20 \<and> s ! 4 = CHR ''-'' \<and> s ! 7 = CHR ''-'' \<and> s ! 10 = CHR ''T'' \<and>
         s ! 13 = CHR '':'' \<and> s ! 16 = CHR '':'' \<and> s ! 19 = CHR ''Z''
      then
        (case (digits_value (take 4 s) 0, digits_value (take 2 (drop 5 s)) 0,
               digits_value (take 2 (drop 8 s)) 0, digits_value (take 2 (drop 11 s)) 0,
               digits_value (take 2 (drop 14 s)) 0, digits_value (take 2 (drop 17 s)) 0) of
           (Some y, Some m, Some d, Some h, Some mi, Some se) \<Rightarrow>
             if 1 \<le> m \<and> m \<le> 12 \<and> 1 \<le> d \<and> int d \<le> daysInMonth (int y) (int m) \<and>
                h \<le> 23 \<and> mi \<le> 59 \<and> se \<le> 59
             then Some (days_from_civil (int y) (int m) (int d) * 86400000 +
                        int h * 3600000 + int mi * 60000 + int se * 1000)
             else None
         | _ \<Rightarrow> None)
      else None)"

text \<open>The time value of \<open>new Date(v)\<close>, \<open>None\<close> for an invalid date.\<close>

definition time_value :: "'n runtime \<Rightarrow> 'n jsval \<Rightarrow> int option" where
  "time_value rt v =
     (case v of
        JStr s \<Rightarrow>
          (case parse_utc_timestamp s of Some t \<Rightarrow> Some t | None \<Rightarrow> new_Date_other rt v)
      | _ \<Rightarrow> new_Date_other rt v)"

text \<open>
  The date library's \<open>format(date, 'MMM d, yyyy')\<close> on a valid date, as a function of the
  local time (the time value plus the offset of the time zone): the abbreviated English
  month name, the day of the month without padding, and the year (for a year before 1, one
  minus the year) padded with zeros to four digits.
\<close>

fun decimal :: "nat \<Rightarrow> string" where
  "decimal n =
     (if n < 10 then [''0123456789'' ! n]
      else decimal (n div 10) @ [''0123456789'' ! (n mod 10)])"

declare decimal.simps [simp del]

definition addLeadingZeros :: "nat \<Rightarrow> nat \<Rightarrow> string" where
  "addLeadingZeros n targetLength =
     replicate (targetLength - length (decimal n)) (CHR ''0'') @ decimal n"

definition monthAbbreviation :: "int \<Rightarrow> string" where
  "monthAbbreviation m =
     [''Jan'', ''Feb'', ''Mar'', ''Apr'', ''May'', ''Jun'',
      ''Jul'', ''Aug'', ''Sep'', ''Oct'', ''Nov'', ''Dec''] ! nat (m - 1)"

definition format_MMM_d_yyyy :: "int \<Rightarrow> string" where
  "format_MMM_d_yyyy localTime =
     (case civil_from_days (localTime div 86400000) of
        (y, m, d) \<Rightarrow>
          monthAbbreviation m @ '' '' @ addLeadingZeros (nat d) 1 @ '', '' @
          addLeadingZeros (nat (if y > 0 then y else 1 - y)) 4)"

text \<open>
  \<open>format(new Date(v), 'MMM d, yyyy')\<close> in the time zone of the runtime: \<open>None\<close> when the
  date is invalid, for which \<open>format\<close> throws.
\<close>

definition date_format :: "'n runtime \<Rightarrow> 'n jsval \<Rightarrow> string option" where
  "date_format rt v =
     (case time_value rt v of
        None \<Rightarrow> None
      | Some t \<Rightarrow> Some (format_MMM_d_yyyy (t + tz_offset_minutes rt t * 60000)))"


section \<open>Tag cell renderer (document-tags-cell.tsx)\<close>

text \<open>All tag slot keys that can hold values.\<close>

definition TAG_SLOTS :: "string list" where
  "TAG_SLOTS =
     [''tag1'', ''tag2'', ''tag3'', ''tag4'', ''tag5'', ''tag6'', ''tag7'',
      ''number1'', ''number2'', ''number3'', ''number4'', ''number5'',
      ''date1'', ''date2'',
      ''boolean1'', ''boolean2'', ''boolean3'']"

text \<open>
  The fields of a \<open>TagDefinition\<close> that the component reads (the interface is declared in
  the hooks module, outside the files at hand; the three fields are strings).
\<close>

record TagDefinition =
  def_tagSlot :: string
  def_displayName :: string
  def_fieldType :: string

record TagValue =
  slot :: string
  displayName :: string
  formatted :: string
  fieldType :: string

text \<open>Formats a tag value based on its field type.\<close>

definition formatTagValue :: "'n runtime \<Rightarrow> 'n jsval \<Rightarrow> string \<Rightarrow> string" where
  "formatTagValue rt v ft =
     (if v = JNull \<or> v = JUndefined then []
      else if ft = ''date'' then
        (case date_format rt v of Some s \<Rightarrow> s | None \<Rightarrow> String_of rt v)
      else if ft = ''boolean'' then (if truthy rt v then ''Yes'' else ''No'')
      else if ft = ''number'' then
        (case v of JNum n \<Rightarrow> num_toLocaleString rt n | _ \<Rightarrow> String_of rt v)
      else String_of rt v)"

text \<open>Gets the field type for a tag slot.\<close>

definition getFieldType :: "string \<Rightarrow> string" where
  "getFieldType s =
     (if prefix ''tag'' s then ''text''
      else if prefix ''number'' s then ''number''
      else if prefix ''date'' s then ''date''
      else if prefix ''boolean'' s then ''boolean''
      else ''text'')"

text \<open>
  The body of the loop over \<open>TAG_SLOTS\<close>: \<open>None\<close> is \<open>continue\<close>, \<open>Some\<close> is the
  pushed element. \<open>document[slot]\<close> of a missing property is \<open>undefined\<close>, and \<open>a || b\<close>
  on strings takes \<open>b\<close> when \<open>a\<close> is missing or empty.
\<close>

definition slotTag ::
  "'n runtime \<Rightarrow> (string \<Rightarrow> 'n jsval) \<Rightarrow> TagDefinition list \<Rightarrow> string \<Rightarrow> TagValue option" where
  "slotTag rt document tagDefinitions s =
     (let v = document s in
      if v = JNull \<or> v = JUndefined then None
      else
        let definition = find (\<lambda>d. def_tagSlot d = s) tagDefinitions;
            ft = (case definition of
                    Some d \<Rightarrow> if def_fieldType d \<noteq> [] then def_fieldType d else getFieldType s
                  | None \<Rightarrow> getFieldType s);
            formattedValue = formatTagValue rt v ft
        in if formattedValue = [] then None
           else Some \<lparr> slot = s,
                       displayName = (case definition of
                                        Some d \<Rightarrow> if def_displayName d \<noteq> [] then def_displayName d else s
                                      | None \<Rightarrow> s),
                       formatted = formattedValue,
                       fieldType = ft \<rparr>)"

fun tagsLoop ::
  "'n runtime \<Rightarrow> (string \<Rightarrow> 'n jsval) \<Rightarrow> TagDefinition list \<Rightarrow> string list \<Rightarrow> TagValue list" where
  "tagsLoop rt document tagDefinitions [] = []"
| "tagsLoop rt document tagDefinitions (s # rest) =
     (case slotTag rt document tagDefinitions s of
        None \<Rightarrow> tagsLoop rt document tagDefinitions rest
      | Some t \<Rightarrow> t # tagsLoop rt document tagDefinitions rest)"

definition tags :: "'n runtime \<Rightarrow> (string \<Rightarrow> 'n jsval) \<Rightarrow> TagDefinition list \<Rightarrow> TagValue list" where
  "tags rt document tagDefinitions = tagsLoop rt document tagDefinitions TAG_SLOTS"

text \<open>
  What the component returns: the placeholder dash, or the inline badges (key, badge text,
  tooltip text) followed, when there is overflow, by the count badge (rendered as \<open>+\<close>
  and the number), its tooltip, and the rows (key, label, value) of the popover.
\<close>

record InlineBadge =
  badge_key :: string
  badge_text :: string
  badge_tooltip :: string

record PanelRow =
  row_key :: string
  row_label :: string
  row_value :: string

record Overflow =
  overflow_count :: nat
  overflow_tooltip :: string
  overflow_panel :: "PanelRow list"

datatype Rendered = Placeholder | Cell "InlineBadge list" "Overflow option"

definition inlineBadge :: "TagValue \<Rightarrow> InlineBadge" where
  "inlineBadge t =
     \<lparr> badge_key = slot t, badge_text = formatted t,
       badge_tooltip = displayName t @ '': '' @ formatted t \<rparr>"

definition panelRow :: "TagValue \<Rightarrow> PanelRow" where
  "panelRow t = \<lparr> row_key = slot t, row_label = displayName t, row_value = formatted t \<rparr>"

definition renderTags :: "TagValue list \<Rightarrow> Rendered" where
  "renderTags ts =
     (if length ts = 0 then Placeholder
      else
        let visibleTags = take 2 ts;
            overflowTags = drop 2 ts;
            hasOverflow = (length overflowTags > 0)
        in Cell (map inlineBadge visibleTags)
                (if hasOverflow
                 then Some \<lparr> overflow_count = length overflowTags,
                             overflow_tooltip = join '', '' (map displayName overflowTags),
                             overflow_panel = map panelRow ts \<rparr>
                 else None))"

definition DocumentTagsCell ::
  "'n runtime \<Rightarrow> (string \<Rightarrow> 'n jsval) \<Rightarrow> TagDefinition list \<Rightarrow> Rendered" where
  "DocumentTagsCell rt document tagDefinitions = renderTags (tags rt document tagDefinitions)"


section \<open>Matter-creation tool descriptor (create_matters)\<close>

record GoogleVaultCreateMattersParams =
  accessToken :: string
  name :: string
  description :: "string option"

record 'n Request =
  req_url :: string
  req_method :: string
  req_headers :: "(string \<times> string) list"
  req_body :: "'n jsval"

text \<open>The \<open>request\<close> entry of the descriptor, applied to the parameters.\<close>

definition createMattersTool_request :: "GoogleVaultCreateMattersParams \<Rightarrow> 'n Request" where
  \<open>createMattersTool_request params =
     \<lparr> req_url = ''https://vault.googleapis.com/v1/matters'',
       req_method = ''POST'',
       req_headers =
         [(''Authorization'', ''Bearer '' @ accessToken params),
          (''Content-Type'', ''application/json'')],
       req_body =
         JObj [(''name'', JStr (name params)),
               (''description'',
                  (case description params of None \<Rightarrow> JUndefined | Some d \<Rightarrow> JStr d))] \<rparr>\<close>

text \<open>
  A \<open>Response\<close>: its \<open>ok\<close> flag and what \<open>await response.json()\<close> gives, the parsed body
  or the rejection (of some type \<open>'x\<close>) when the body is not JSON.
\<close>

record ('n, 'x) Response =
  resp_ok :: bool
  resp_json :: "'x + 'n jsval"

record 'n ToolResponse =
  tr_success :: bool
  tr_output :: "'n jsval"

text \<open>
  What \<open>transformResponse\<close> throws: an exception of a callee that passes through, the
  \<open>TypeError\<close> of a property read on \<open>null\<close>, or its own \<open>new Error(message)\<close>.
\<close>

datatype 'x tool_exn = Propagated 'x | TypeError | Error string

text \<open>
  \<open>data.error?.message || 'Failed to create matter'\<close>, for \<open>data\<close> that is not \<open>null\<close>.
\<close>

definition errorMessage_of :: "'n runtime \<Rightarrow> 'n jsval \<Rightarrow> 'n jsval" where
  "errorMessage_of rt data =
     (let err = get_prop data ''error'';
          msg = (if err = JNull \<or> err = JUndefined then JUndefined else get_prop err ''message'')
      in if truthy rt msg then msg else JStr ''Failed to create matter'')"

text \<open>
  \<open>enhanceGoogleVaultError\<close> is imported from the tool utilities, which are not among the
  files at hand: it is the parameter \<open>enhance\<close>, from the argument it receives to the string
  it returns or the exception it throws.
\<close>

definition transformResponse ::
  "'n runtime \<Rightarrow> ('n jsval \<Rightarrow> 'x + string) \<Rightarrow> ('n, 'x) Response \<Rightarrow> 'x tool_exn + 'n ToolResponse" where
  "transformResponse rt enhance response =
     (case resp_json response of
        Inl rejection \<Rightarrow> Inl (Propagated rejection)
      | Inr data \<Rightarrow>
          if \<not> resp_ok response then
            (if data = JNull \<or> data = JUndefined then Inl TypeError
             else (case enhance (errorMessage_of rt data) of
                     Inl thrown \<Rightarrow> Inl (Propagated thrown)
                   | Inr m \<Rightarrow> Inl (Error m)))
          else Inr \<lparr> tr_success = True, tr_output = JObj [(''matter'', data)] \<rparr>)"


section \<open>Block execution adapter (google-vault-handler.ts)\<close>

subsection \<open>Credential errors\<close>

text \<open>Detects Google Vault credential/reauthentication errors.\<close>

definition isCredentialRefreshError :: "string \<Rightarrow> bool" where
  "isCredentialRefreshError errorMessage =
     (let lowerMessage = toLowerCase errorMessage in
        str_includes lowerMessage ''invalid_rapt'' \<or>
        str_includes lowerMessage ''reauth related error'' \<or>
        (str_includes lowerMessage ''invalid_grant'' \<and> str_includes lowerMessage ''rapt'') \<or>
        str_includes lowerMessage ''failed to refresh token'' \<or>
        (str_includes lowerMessage ''failed to fetch access token'' \<and>
         str_includes lowerMessage ''401''))"

text \<open>The fixed message that replaces a credential error.\<close>

definition REMEDIATION :: string where
  \<open>REMEDIATION =
     ''Google Vault authentication failed (likely due to reauthentication policy). '' @
     ''To resolve this, try disconnecting and reconnecting your Google Vault credential '' @
     ''in the Credentials settings. If the issue persists, ask your Google Workspace '' @
     ''administrator to disable "Reauthentication policy" for Sim Studio in the Google '' @
     ''Admin Console (Security > Access and data control > Context-Aware Access > '' @
     ''Reauthentication policy), or exempt Sim Studio from reauthentication requirements. '' @
     ''Learn more: https://support.google.com/a/answer/9368756''\<close>

text \<open>Enhances error messages for Google Vault credential failures.\<close>

definition enhanceCredentialError :: "string \<Rightarrow> string" where
  "enhanceCredentialError originalError =
     (if isCredentialRefreshError originalError then REMEDIATION else originalError)"

subsection \<open>Data of the adapter\<close>

text \<open>
  A thrown object: whether it is an \<open>Error\<close> instance, its message (the empty string when
  there is none) and the fields the adapter reads or attaches. What the tool executor
  throws is taken to be an object, as every \<open>Error\<close> is; a primitive thrown by it is not
  modelled.
\<close>

record 'n JsError =
  isError :: bool
  message :: string
  status :: "'n jsval"
  toolId :: "string option"
  toolName :: "string option"
  blockId :: "string option"
  blockName :: "string option"
  err_output :: "'n jsval option"
  timestamp :: "string option"

definition new_Error :: "string \<Rightarrow> 'n JsError" where
  "new_Error m =
     \<lparr> isError = True, message = m, status = JUndefined, toolId = None, toolName = None,
       blockId = None, blockName = None, err_output = None, timestamp = None \<rparr>"

record Tool =
  tool_name :: string

record BlockMetadata =
  meta_id :: string
  meta_name :: "string option"

record SerializedBlock =
  block_id :: string
  config_tool :: string
  metadata :: "BlockMetadata option"

text \<open>
  What the parameter transformation throws, as the handler that logs it tells the cases
  apart: an \<open>Error\<close> instance, with its message; any other value that \<open>String\<close> coerces;
  or an object that \<open>String\<close> cannot coerce (one without \<open>toString\<close> and \<open>valueOf\<close>, such
  as an object with a null prototype, or one whose \<open>toString\<close> throws), with the exception
  that the coercion throws.
\<close>

datatype 'n thrown =
    ThrownError string
  | ThrownValue "'n jsval"
  | ThrownUnconvertible "'n JsError"

text \<open>An entry of \<open>blockConfig.inputs\<close>: an object with a \<open>type\<close>, or the type itself.\<close>

datatype InputSchema = SchemaObject string | SchemaType string

record 'n BlockConfig =
  tools_config_params ::
    "((string \<rightharpoonup> 'n jsval) \<Rightarrow> 'n thrown + (string \<rightharpoonup> 'n jsval)) option"
  config_inputs :: "(string \<times> InputSchema) list option"

record 'n ExecutionContext =
  workflowId :: "'n jsval"
  workspaceId :: "'n jsval"
  executionId :: "'n jsval"

record 'n ToolResult =
  res_success :: bool
  res_output :: "'n jsval"
  res_error :: "string option"

text \<open>
  The registries and the tool executor the adapter imports, with the runtime: each returns
  \<open>None\<close> for \<open>undefined\<close>, and \<open>executeTool\<close> returns its result or the object it throws.
\<close>

record 'n env =
  rt :: "'n runtime"
  getTool :: "string \<Rightarrow> Tool option"
  getBlock :: "string \<Rightarrow> 'n BlockConfig option"
  executeTool ::
    "string \<Rightarrow> (string \<rightharpoonup> 'n jsval) \<Rightarrow> bool \<Rightarrow> bool \<Rightarrow> 'n ExecutionContext
       \<Rightarrow> 'n JsError + 'n ToolResult"


subsection \<open>The steps of \<open>execute\<close>\<close>

text \<open>
  \<open>error instanceof Error ? error.message : String(error)\<close>, the detail that the handler
  of a failed transformation logs: the string, or the exception of the coercion.
\<close>

definition errorDetail :: "'n runtime \<Rightarrow> 'n thrown \<Rightarrow> 'n JsError + string" where
  "errorDetail r error =
     (case error of
        ThrownError m \<Rightarrow> Inr m
      | ThrownValue v \<Rightarrow> Inr (String_of r v)
      | ThrownUnconvertible e \<Rightarrow> Inl e)"

text \<open>
  The parameter transformation of the block configuration, when there is one: its result
  is spread over the raw inputs. What it throws is caught and logged, and the raw inputs
  are kept; the handler is not itself inside a \<open>try\<close>, so an exception of the coercion in
  it leaves \<open>execute\<close>.
\<close>

definition transformInputs ::
  "'n runtime \<Rightarrow> 'n BlockConfig \<Rightarrow> (string \<rightharpoonup> 'n jsval) \<Rightarrow> 'n JsError + (string \<rightharpoonup> 'n jsval)" where
  "transformInputs r blockConfig inputs =
     (case tools_config_params blockConfig of
        None \<Rightarrow> Inr inputs
      | Some params \<Rightarrow>
          (case params inputs of
             Inr transformedParams \<Rightarrow> Inr (inputs ++ transformedParams)
           | Inl error \<Rightarrow>
               (case errorDetail r error of
                  Inl e \<Rightarrow> Inl e
                | Inr detail \<Rightarrow> Inr inputs)))"

definition inputType_of :: "InputSchema \<Rightarrow> string" where
  "inputType_of inputSchema = (case inputSchema of SchemaObject t \<Rightarrow> t | SchemaType t \<Rightarrow> t)"

text \<open>
  The loop over \<open>Object.entries(blockConfig.inputs)\<close>: a string value of a \<open>json\<close> or
  \<open>array\<close> field whose trimmed text is not empty is replaced by its parse, and kept when
  the parse throws.
\<close>

fun coerceInputs ::
  "(string \<Rightarrow> 'n jsval option) \<Rightarrow> (string \<times> InputSchema) list \<Rightarrow> (string \<rightharpoonup> 'n jsval)
     \<Rightarrow> (string \<rightharpoonup> 'n jsval)" where
  "coerceInputs parse [] finalInputs = finalInputs"
| "coerceInputs parse ((key, inputSchema) # rest) finalInputs =
     coerceInputs parse rest
       (case finalInputs key of
          Some (JStr v) \<Rightarrow>
            if length (trim v) > 0 then
              let inputType = inputType_of inputSchema in
              if inputType = ''json'' \<or> inputType = ''array'' then
                (case parse (trim v) of
                   Some parsed \<Rightarrow> finalInputs(key \<mapsto> parsed)
                 | None \<Rightarrow> finalInputs)
              else finalInputs
            else finalInputs
        | _ \<Rightarrow> finalInputs)"

text \<open>
  The inputs as they are when the tool is called (before \<open>_context\<close> is added), or the
  exception that leaves the handler of the transformation. The handler of a failed parse
  logs in the same way, but \<open>JSON.parse\<close> throws a \<open>SyntaxError\<close> only, whose message
  it reads.
\<close>

definition finalizeInputs ::
  "'n env \<Rightarrow> SerializedBlock \<Rightarrow> (string \<rightharpoonup> 'n jsval) \<Rightarrow> 'n JsError + (string \<rightharpoonup> 'n jsval)" where
  "finalizeInputs env block inputs =
     (case metadata block of
        None \<Rightarrow> Inr inputs
      | Some md \<Rightarrow>
          if meta_id md = [] then Inr inputs
          else
            (case getBlock env (meta_id md) of
               None \<Rightarrow> Inr inputs
             | Some blockConfig \<Rightarrow>
                 (case transformInputs (rt env) blockConfig inputs of
                    Inl e \<Rightarrow> Inl e
                  | Inr finalInputs \<Rightarrow>
                      (case config_inputs blockConfig of
                         None \<Rightarrow> Inr finalInputs
                       | Some schemas \<Rightarrow>
                           Inr (coerceInputs (JSON_parse (rt env)) schemas finalInputs)))))"

definition toolParams ::
  "'n ExecutionContext \<Rightarrow> (string \<rightharpoonup> 'n jsval) \<Rightarrow> (string \<rightharpoonup> 'n jsval)" where
  "toolParams ctx finalInputs =
     finalInputs(''_context'' \<mapsto>
       JObj [(''workflowId'', workflowId ctx),
             (''workspaceId'', workspaceId ctx),
             (''executionId'', executionId ctx)])"

text \<open>\<open>block.metadata?.name\<close>, \<open>None\<close> when it is missing or empty (falsy).\<close>

definition metadata_name :: "SerializedBlock \<Rightarrow> string option" where
  "metadata_name block =
     (case metadata block of
        None \<Rightarrow> None
      | Some md \<Rightarrow> (case meta_name md of None \<Rightarrow> None | Some n \<Rightarrow> if n = [] then None else Some n))"

text \<open>\<open>tool?.name || block.config.tool\<close>.\<close>

definition toolLabel :: "Tool \<Rightarrow> SerializedBlock \<Rightarrow> string" where
  "toolLabel tool block = (if tool_name tool \<noteq> [] then tool_name tool else config_tool block)"

text \<open>\<open>block.metadata?.name || 'Unnamed Block'\<close>.\<close>

definition blockLabel :: "SerializedBlock \<Rightarrow> string" where
  "blockLabel block = (case metadata_name block of Some n \<Rightarrow> n | None \<Rightarrow> ''Unnamed Block'')"

text \<open>The message of the error for a result with \<open>success\<close> false.\<close>

definition failureMessage :: "Tool \<Rightarrow> SerializedBlock \<Rightarrow> 'n ToolResult \<Rightarrow> string" where
  "failureMessage tool block result =
     (let errorDetails =
            (case res_error result of
               None \<Rightarrow> []
             | Some e \<Rightarrow> if e \<noteq> [] then [enhanceCredentialError e] else [])
      in if length errorDetails > 0 then join '' - '' errorDetails
         else ''Block execution of '' @ toolLabel tool block @ '' failed with no error message'')"

text \<open>The error built and thrown for a result with \<open>success\<close> false.\<close>

definition failureError ::
  "'n runtime \<Rightarrow> Tool \<Rightarrow> SerializedBlock \<Rightarrow> 'n ToolResult \<Rightarrow> 'n JsError" where
  "failureError r tool block result =
     (new_Error (failureMessage tool block result))
       \<lparr> toolId := Some (config_tool block),
         toolName := Some (if tool_name tool \<noteq> [] then tool_name tool else ''Unknown tool''),
         blockId := Some (block_id block),
         blockName := Some (blockLabel block),
         err_output := Some (if truthy r (res_output result) then res_output result else JObj []),
         timestamp := Some (now_iso r) \<rparr>"

text \<open>The value returned for a successful result: the cost, when there is one, is surfaced.\<close>

definition successValue :: "'n runtime \<Rightarrow> 'n jsval \<Rightarrow> 'n jsval" where
  "successValue r output =
     (let cost = (if output = JNull \<or> output = JUndefined then JNull
                  else let c = get_prop output ''cost'' in if truthy r c then c else JNull)
      in if truthy r cost then
           JObj (obj_set ''model'' (get_prop cost ''model'')
                (obj_set ''tokens'' (get_prop cost ''tokens'')
                (obj_set ''cost''
                   (JObj [(''input'', get_prop cost ''input''),
                          (''output'', get_prop cost ''output''),
                          (''total'', get_prop cost ''total'')])
                   (own_entries output))))
         else output)"

text \<open>The body of the \<open>try\<close> block: the call of the tool and what follows it.\<close>

definition tryBlock ::
  "'n env \<Rightarrow> 'n ExecutionContext \<Rightarrow> SerializedBlock \<Rightarrow> Tool \<Rightarrow> (string \<rightharpoonup> 'n jsval)
     \<Rightarrow> 'n JsError + 'n jsval" where
  "tryBlock env ctx block tool finalInputs =
     (case executeTool env (config_tool block) (toolParams ctx finalInputs) False False ctx of
        Inl error \<Rightarrow> Inl error
      | Inr result \<Rightarrow>
          if \<not> res_success result then Inl (failureError (rt env) tool block result)
          else Inr (successValue (rt env) (res_output result)))"

text \<open>
  The \<open>catch\<close> block, on a thrown object, in its three steps: the message of an \<open>Error\<close>
  is enhanced; an empty or placeholder message is replaced by a synthesized one; the tool
  id and block name are filled in where they are missing. The result is thrown again.
\<close>

definition enhanceThrown :: "'n JsError \<Rightarrow> 'n JsError" where
  "enhanceThrown error =
     (if isError error then
        let enhancedMessage = enhanceCredentialError (message error) in
        if enhancedMessage \<noteq> message error then error\<lparr> message := enhancedMessage \<rparr>
        else error
      else error)"

definition synthesizedMessage ::
  "'n runtime \<Rightarrow> Tool \<Rightarrow> SerializedBlock \<Rightarrow> 'n jsval \<Rightarrow> string" where
  "synthesizedMessage r tool block st =
     (let m0 = ''Block execution of '' @ toolLabel tool block @ '' failed'';
          m1 = (case metadata_name block of Some n \<Rightarrow> m0 @ '': '' @ n | None \<Rightarrow> m0)
      in if truthy r st then m1 @ '' (Status: '' @ String_of r st @ '')'' else m1)"

definition replaceBlankMessage ::
  "'n runtime \<Rightarrow> Tool \<Rightarrow> SerializedBlock \<Rightarrow> 'n JsError \<Rightarrow> 'n JsError" where
  "replaceBlankMessage r tool block error =
     (if message error = [] \<or> message error = ''undefined (undefined)''
      then error\<lparr> message := synthesizedMessage r tool block (status error) \<rparr>
      else error)"

definition backfill :: "SerializedBlock \<Rightarrow> 'n JsError \<Rightarrow> 'n JsError" where
  "backfill block error =
     (let error1 =
            (case toolId error of
               None \<Rightarrow> error\<lparr> toolId := Some (config_tool block) \<rparr>
             | Some t \<Rightarrow> if t = [] then error\<lparr> toolId := Some (config_tool block) \<rparr> else error)
      in (case blockName error1 of
            None \<Rightarrow> error1\<lparr> blockName := Some (blockLabel block) \<rparr>
          | Some b \<Rightarrow> if b = [] then error1\<lparr> blockName := Some (blockLabel block) \<rparr> else error1))"

definition handleCaught ::
  "'n runtime \<Rightarrow> Tool \<Rightarrow> SerializedBlock \<Rightarrow> 'n JsError \<Rightarrow> 'n JsError" where
  "handleCaught r tool block error =
     backfill block (replaceBlankMessage r tool block (enhanceThrown error))"

definition execute ::
  "'n env \<Rightarrow> 'n ExecutionContext \<Rightarrow> SerializedBlock \<Rightarrow> (string \<rightharpoonup> 'n jsval)
     \<Rightarrow> 'n JsError + 'n jsval" where
  "execute env ctx block inputs =
     (case getTool env (config_tool block) of
        None \<Rightarrow> Inl (new_Error (''Tool not found: '' @ config_tool block))
      | Some tool \<Rightarrow>
          (case finalizeInputs env block inputs of
             Inl e \<Rightarrow> Inl e
           | Inr finalInputs \<Rightarrow>
               (case tryBlock env ctx block tool finalInputs of
                  Inl error \<Rightarrow> Inl (handleCaught (rt env) tool block error)
                | Inr v \<Rightarrow> Inr v)))"


section \<open>An example environment\<close>

text \<open>
  A small concrete environment, on which the definitions above are run: a runtime with the
  numbers 0 and 1, in the time zone UTC, that parses one JSON text, a registry with one
  tool and one block type, and a tool executor with a fixed outcome; the tool, the block
  configuration and the outcome are parameters.
\<close>

datatype example_num = Zero | One

definition example_runtime :: "example_num runtime" where
  \<open>example_runtime =
     \<lparr> num_falsy = (\<lambda>n. n = Zero),
       num_toString = (\<lambda>n. case n of Zero \<Rightarrow> ''0'' | One \<Rightarrow> ''1''),
       num_toLocaleString = (\<lambda>n. case n of Zero \<Rightarrow> ''0'' | One \<Rightarrow> ''1''),
       new_Date_other = (\<lambda>v. None),
       tz_offset_minutes = (\<lambda>t. 0),
       JSON_parse = (\<lambda>s. if s = ''{"a":1}'' then Some (JObj [(''a'', JNum One)]) else None),
       now_iso = ''2024-03-05T00:00:00.000Z'' \<rparr>\<close>

definition example_tool :: Tool where
  "example_tool = \<lparr> tool_name = ''Vault Create Matter'' \<rparr>"

definition example_block :: SerializedBlock where
  "example_block =
     \<lparr> block_id = ''block-1'', config_tool = ''create_matters'',
       metadata = Some \<lparr> meta_id = ''google_vault'', meta_name = Some ''Vault'' \<rparr> \<rparr>"

definition example_ctx :: "example_num ExecutionContext" where
  "example_ctx =
     \<lparr> workflowId = JStr ''wf'', workspaceId = JStr ''ws'', executionId = JStr ''ex'' \<rparr>"

definition example_blockConfig ::
  "((string \<rightharpoonup> example_num jsval) \<Rightarrow> example_num thrown + (string \<rightharpoonup> example_num jsval)) option
     \<Rightarrow> (string \<times> InputSchema) list option \<Rightarrow> example_num BlockConfig" where
  "example_blockConfig params schemas = \<lparr> tools_config_params = params, config_inputs = schemas \<rparr>"

definition example_schemas :: "(string \<times> InputSchema) list" where
  "example_schemas =
     [(''payload'', SchemaObject ''json''), (''terms'', SchemaType ''array''),
      (''title'', SchemaObject ''string'')]"

definition example_env ::
  "Tool \<Rightarrow> example_num BlockConfig \<Rightarrow> example_num JsError + example_num ToolResult
     \<Rightarrow> example_num env" where
  "example_env tool blockConfig outcome =
     \<lparr> rt = example_runtime,
       getTool = (\<lambda>t. if t = ''create_matters'' then Some tool else None),
       getBlock = (\<lambda>b. if b = ''google_vault'' then Some blockConfig else None),
       executeTool = (\<lambda>t ps s b c. outcome) \<rparr>"

definition example_document :: "string \<Rightarrow> example_num jsval" where
  "example_document s =
     (if s = ''boolean1'' then JBool False
      else if s = ''number1'' then JNum Zero
      else if s = ''tag1'' then JStr []
      else if s = ''tag2'' then JStr ''alpha''
      else if s = ''date1'' then JStr ''2024-03-05T00:00:00Z''
      else if s = ''tag3'' then JNull
      else JUndefined)"

section \<open>Properties of the credential-error enhancement\<close>

lemma str_includes_sublist: "str_includes s t = sublist t s"
  by (induction s) (auto simp: sublist_Cons_right)

lemma REMEDIATION_no_trigger: "\<not> isCredentialRefreshError REMEDIATION"
  by code_simp

lemma REMEDIATION_not_blank: "REMEDIATION \<noteq> []" "REMEDIATION \<noteq> ''undefined (undefined)''"
  by (simp_all add: REMEDIATION_def)

lemma blank_no_trigger:
  "\<not> isCredentialRefreshError []" "\<not> isCredentialRefreshError ''undefined (undefined)''"
  by code_simp+

lemma enhance_again: "enhanceCredentialError (enhanceCredentialError s) = enhanceCredentialError s"
  by (simp add: enhanceCredentialError_def REMEDIATION_no_trigger)

lemma enhance_eq_Nil: "enhanceCredentialError s = [] \<longleftrightarrow> s = []"
  by (auto simp: enhanceCredentialError_def REMEDIATION_not_blank blank_no_trigger)

lemma enhance_eq_placeholder:
  "enhanceCredentialError s = ''undefined (undefined)'' \<longleftrightarrow> s = ''undefined (undefined)''"
  by (auto simp: enhanceCredentialError_def REMEDIATION_not_blank blank_no_trigger)

text \<open>
  C1. For every error text, the enhancement returns the fixed remediation message when the
  lowercased text contains \<open>invalid_rapt\<close>, or \<open>reauth related error\<close>, or both
  \<open>invalid_grant\<close> and \<open>rapt\<close>, or \<open>failed to refresh token\<close>, or both
  \<open>failed to fetch access token\<close> and \<open>401\<close>, and returns the text unchanged in every
  other case. The remediation message mentions \<open>Reauthentication policy\<close>, and the text
  \<open>rate limit exceeded\<close> is returned unchanged.
\<close>

theorem enhanceCredentialError_trigger:
  "enhanceCredentialError s =
     (if sublist ''invalid_rapt'' (toLowerCase s) \<or>
         sublist ''reauth related error'' (toLowerCase s) \<or>
         (sublist ''invalid_grant'' (toLowerCase s) \<and> sublist ''rapt'' (toLowerCase s)) \<or>
         sublist ''failed to refresh token'' (toLowerCase s) \<or>
         (sublist ''failed to fetch access token'' (toLowerCase s) \<and> sublist ''401'' (toLowerCase s))
      then REMEDIATION else s)
   \<and> sublist ''Reauthentication policy'' REMEDIATION
   \<and> enhanceCredentialError ''rate limit exceeded'' = ''rate limit exceeded''"
proof -
  have rate: "enhanceCredentialError ''rate limit exceeded'' = ''rate limit exceeded''"
    by code_simp
  have "str_includes REMEDIATION ''Reauthentication policy''"
    by code_simp
  then have mentions: "sublist ''Reauthentication policy'' REMEDIATION"
    by (simp only: str_includes_sublist)
  have general: "enhanceCredentialError s =
     (if sublist ''invalid_rapt'' (toLowerCase s) \<or>
         sublist ''reauth related error'' (toLowerCase s) \<or>
         (sublist ''invalid_grant'' (toLowerCase s) \<and> sublist ''rapt'' (toLowerCase s)) \<or>
         sublist ''failed to refresh token'' (toLowerCase s) \<or>
         (sublist ''failed to fetch access token'' (toLowerCase s) \<and> sublist ''401'' (toLowerCase s))
      then REMEDIATION else s)"
    unfolding enhanceCredentialError_def isCredentialRefreshError_def Let_def str_includes_sublist
    by (rule refl)
  from general mentions rate show ?thesis
    by (intro conjI)
qed

section \<open>Properties of the block execution adapter\<close>

subsection \<open>The error for an unsuccessful result\<close>

lemma failureMessage_eq:
  "failureMessage tool block result =
     (case res_error result of
        None \<Rightarrow> ''Block execution of '' @ toolLabel tool block @ '' failed with no error message''
      | Some e \<Rightarrow>
          if e \<noteq> [] then enhanceCredentialError e
          else ''Block execution of '' @ toolLabel tool block @ '' failed with no error message'')"
  by (cases "res_error result") (simp_all add: failureMessage_def)

lemma failureError_fields:
  "isError (failureError r tool block result)"
  "message (failureError r tool block result) = failureMessage tool block result"
  "status (failureError r tool block result) = JUndefined"
  "toolId (failureError r tool block result) = Some (config_tool block)"
  "toolName (failureError r tool block result) =
     Some (if tool_name tool \<noteq> [] then tool_name tool else ''Unknown tool'')"
  "blockId (failureError r tool block result) = Some (block_id block)"
  "blockName (failureError r tool block result) = Some (blockLabel block)"
  "err_output (failureError r tool block result) =
     Some (if truthy r (res_output result) then res_output result else JObj [])"
  "timestamp (failureError r tool block result) = Some (now_iso r)"
  by (simp_all add: failureError_def new_Error_def)

subsection \<open>The catch block\<close>

lemma enhanceThrown_fields:
  "message (enhanceThrown error) =
     (if isError error then enhanceCredentialError (message error) else message error)"
  "status (enhanceThrown error) = status error"
  "toolId (enhanceThrown error) = toolId error"
  "toolName (enhanceThrown error) = toolName error"
  "blockId (enhanceThrown error) = blockId error"
  "blockName (enhanceThrown error) = blockName error"
  "err_output (enhanceThrown error) = err_output error"
  "timestamp (enhanceThrown error) = timestamp error"
  by (simp_all add: enhanceThrown_def Let_def)

lemma replaceBlankMessage_fields:
  "message (replaceBlankMessage r tool block error) =
     (if message error = [] \<or> message error = ''undefined (undefined)''
      then synthesizedMessage r tool block (status error) else message error)"
  "toolId (replaceBlankMessage r tool block error) = toolId error"
  "toolName (replaceBlankMessage r tool block error) = toolName error"
  "blockId (replaceBlankMessage r tool block error) = blockId error"
  "blockName (replaceBlankMessage r tool block error) = blockName error"
  "err_output (replaceBlankMessage r tool block error) = err_output error"
  "timestamp (replaceBlankMessage r tool block error) = timestamp error"
  by (simp_all add: replaceBlankMessage_def)

lemma backfill_fields:
  "message (backfill block error) = message error"
  "toolName (backfill block error) = toolName error"
  "blockId (backfill block error) = blockId error"
  "err_output (backfill block error) = err_output error"
  "timestamp (backfill block error) = timestamp error"
  by (simp_all add: backfill_def Let_def split: option.split)

lemma backfill_toolId:
  "toolId (backfill block error) =
     (case toolId error of
        None \<Rightarrow> Some (config_tool block)
      | Some t \<Rightarrow> if t = [] then Some (config_tool block) else Some t)"
  by (simp add: backfill_def Let_def split: option.split)

lemma backfill_blockName:
  "blockName (backfill block error) =
     (case blockName error of
        None \<Rightarrow> Some (blockLabel block)
      | Some b \<Rightarrow> if b = [] then Some (blockLabel block) else Some b)"
  by (simp add: backfill_def Let_def split: option.split)

lemma blockLabel_not_Nil: "blockLabel block \<noteq> []"
  by (simp add: blockLabel_def metadata_name_def split: option.split)

lemma synthesizedMessage_no_status:
  "synthesizedMessage r tool block JUndefined =
     ''Block execution of '' @ toolLabel tool block @ '' failed'' @
       (case metadata_name block of Some n \<Rightarrow> '': '' @ n | None \<Rightarrow> [])"
  by (simp add: synthesizedMessage_def split: option.split)

text \<open>What the catch block makes of the error built for an unsuccessful result.\<close>

lemma handleCaught_failure_message:
  "message (handleCaught r tool block (failureError r tool block result)) =
     (let m = enhanceCredentialError (failureMessage tool block result)
      in if m = ''undefined (undefined)'' then synthesizedMessage r tool block JUndefined else m)"
proof -
  have "failureMessage tool block result \<noteq> []"
    by (simp add: failureMessage_eq enhance_eq_Nil split: option.split)
  then have "enhanceCredentialError (failureMessage tool block result) \<noteq> []"
    by (simp add: enhance_eq_Nil)
  then show ?thesis
    by (simp add: handleCaught_def backfill_fields replaceBlankMessage_fields
        enhanceThrown_fields failureError_fields Let_def)
qed

lemma handleCaught_failure_fields:
  "toolId (handleCaught r tool block (failureError r tool block result)) = Some (config_tool block)"
  "toolName (handleCaught r tool block (failureError r tool block result)) =
     Some (if tool_name tool \<noteq> [] then tool_name tool else ''Unknown tool'')"
  "blockId (handleCaught r tool block (failureError r tool block result)) = Some (block_id block)"
  "blockName (handleCaught r tool block (failureError r tool block result)) = Some (blockLabel block)"
  "err_output (handleCaught r tool block (failureError r tool block result)) =
     Some (if truthy r (res_output result) then res_output result else JObj [])"
  "timestamp (handleCaught r tool block (failureError r tool block result)) = Some (now_iso r)"
  by (simp_all add: handleCaught_def backfill_fields backfill_toolId backfill_blockName
      replaceBlankMessage_fields enhanceThrown_fields failureError_fields blockLabel_not_Nil)

lemma example_finalize_plain:
  "finalizeInputs (example_env t (example_blockConfig None None) outcome) example_block inputs
     = Inr inputs"
  by (simp add: finalizeInputs_def example_env_def example_block_def transformInputs_def
      example_blockConfig_def)

lemma execute_reaches_tool:
  assumes "getTool env (config_tool block) = Some tool"
    and "finalizeInputs env block inputs = Inr finalInputs"
  shows "execute env ctx block inputs =
     (case executeTool env (config_tool block) (toolParams ctx finalInputs) False False ctx of
        Inl error \<Rightarrow> Inl (handleCaught (rt env) tool block error)
      | Inr result \<Rightarrow>
          if \<not> res_success result
          then Inl (handleCaught (rt env) tool block (failureError (rt env) tool block result))
          else Inr (successValue (rt env) (res_output result)))"
  using assms by (simp add: execute_def tryBlock_def split: sum.split)


subsection \<open>An unsuccessful result\<close>

text \<open>
  C2 (as amended). When the tool is resolved and the tool executor returns a result with
  \<open>success\<close> false, \<open>execute\<close> throws an error whose message is the error string of
  the result passed through the credential-error enhancement; except that for the
  placeholder string \<open>undefined (undefined)\<close> it is the message synthesized from the tool
  label and the block name, and for a missing or empty error string it is the default
  no-error-message string, itself passed through the enhancement. The thrown error carries
  the tool id of the block configuration, the tool name, the block id, the block name, the
  output snapshot and the timestamp.
\<close>

theorem execute_unsuccessful_raises:
  assumes tool: "getTool env (config_tool block) = Some tool"
    and fin: "finalizeInputs env block inputs = Inr finalInputs"
    and call: "executeTool env (config_tool block)
                 (toolParams ctx finalInputs) False False ctx = Inr result"
    and fail: "\<not> res_success result"
  shows "\<exists>err. execute env ctx block inputs = Inl err \<and>
     message err =
       (case res_error result of
          None \<Rightarrow>
            enhanceCredentialError
              (''Block execution of '' @ toolLabel tool block @ '' failed with no error message'')
        | Some e \<Rightarrow>
            if e = [] then
              enhanceCredentialError
                (''Block execution of '' @ toolLabel tool block @ '' failed with no error message'')
            else if e = ''undefined (undefined)'' then
              ''Block execution of '' @ toolLabel tool block @ '' failed'' @
                (case metadata_name block of Some n \<Rightarrow> '': '' @ n | None \<Rightarrow> [])
            else enhanceCredentialError e) \<and>
     toolId err = Some (config_tool block) \<and>
     toolName err = Some (if tool_name tool \<noteq> [] then tool_name tool else ''Unknown tool'') \<and>
     blockId err = Some (block_id block) \<and>
     blockName err = Some (blockLabel block) \<and>
     err_output err = Some (if truthy (rt env) (res_output result) then res_output result else JObj []) \<and>
     timestamp err = Some (now_iso (rt env))"
proof -
  let ?err = "handleCaught (rt env) tool block (failureError (rt env) tool block result)"
  have raised: "execute env ctx block inputs = Inl ?err"
    using call fail by (simp add: execute_reaches_tool [OF tool fin])
  have msg: "message ?err =
       (case res_error result of
          None \<Rightarrow>
            enhanceCredentialError
              (''Block execution of '' @ toolLabel tool block @ '' failed with no error message'')
        | Some e \<Rightarrow>
            if e = [] then
              enhanceCredentialError
                (''Block execution of '' @ toolLabel tool block @ '' failed with no error message'')
            else if e = ''undefined (undefined)'' then
              ''Block execution of '' @ toolLabel tool block @ '' failed'' @
                (case metadata_name block of Some n \<Rightarrow> '': '' @ n | None \<Rightarrow> [])
            else enhanceCredentialError e)"
  proof (cases "res_error result")
    case None
    then show ?thesis
      by (simp add: handleCaught_failure_message failureMessage_eq enhance_eq_placeholder)
  next
    case (Some e)
    then show ?thesis
      by (simp add: handleCaught_failure_message failureMessage_eq enhance_eq_placeholder
          enhance_again synthesizedMessage_no_status)
  qed
  show ?thesis
    using raised msg by (simp add: handleCaught_failure_fields)
qed

text \<open>
  The theorem at a result with the error \<open>failed to refresh token\<close>: the message thrown
  is the remediation message and the tool id is the one of the block.
\<close>

theorem execute_unsuccessful_raises_witness:
  "getTool (example_env example_tool (example_blockConfig None None)
       (Inr \<lparr> res_success = False, res_output = JUndefined, res_error = Some ''failed to refresh token'' \<rparr>))
     (config_tool example_block) = Some example_tool
   \<and> (\<exists>err. execute (example_env example_tool (example_blockConfig None None)
          (Inr \<lparr> res_success = False, res_output = JUndefined, res_error = Some ''failed to refresh token'' \<rparr>))
          example_ctx example_block Map.empty = Inl err
        \<and> message err = REMEDIATION
        \<and> toolId err = Some ''create_matters'')"
proof -
  let ?result = "\<lparr> res_success = False, res_output = JUndefined,
                    res_error = Some ''failed to refresh token'' \<rparr> :: example_num ToolResult"
  let ?env = "example_env example_tool (example_blockConfig None None) (Inr ?result)"
  have tool: "getTool ?env (config_tool example_block) = Some example_tool"
    by (simp add: example_env_def example_block_def)
  have fin: "finalizeInputs ?env example_block Map.empty = Inr Map.empty"
    by (rule example_finalize_plain)
  have call: "executeTool ?env (config_tool example_block)
                 (toolParams example_ctx Map.empty) False False example_ctx = Inr ?result"
    by (simp add: example_env_def)
  have fail: "\<not> res_success ?result"
    by simp
  have trig: "isCredentialRefreshError ''failed to refresh token''"
    by code_simp
  from execute_unsuccessful_raises [OF tool fin call fail]
  obtain err where "execute ?env example_ctx example_block Map.empty = Inl err"
    and "message err = enhanceCredentialError ''failed to refresh token''"
    and "toolId err = Some (config_tool example_block)"
    by auto
  then show ?thesis
    using tool trig by (auto simp: enhanceCredentialError_def example_block_def)
qed

text \<open>
  C2 as stated fails: for the error string \<open>undefined (undefined)\<close> the message thrown
  is the synthesized one, not the (unchanged) enhancement of the string; and with no error
  string, for a tool whose name contains \<open>invalid_rapt\<close>, the message thrown is the
  remediation message, not the default string.
\<close>

theorem execute_unsuccessful_counterexample:
  "map_sum message id
     (execute (example_env example_tool (example_blockConfig None None)
        (Inr \<lparr> res_success = False, res_output = JUndefined, res_error = Some ''undefined (undefined)'' \<rparr>))
        example_ctx example_block Map.empty)
     = Inl ''Block execution of Vault Create Matter failed: Vault''
   \<and> enhanceCredentialError ''undefined (undefined)'' = ''undefined (undefined)''
   \<and> map_sum message id
       (execute (example_env \<lparr> tool_name = ''invalid_rapt probe'' \<rparr> (example_blockConfig None None)
          (Inr \<lparr> res_success = False, res_output = JUndefined, res_error = None \<rparr>))
          example_ctx example_block Map.empty)
     = Inl REMEDIATION"
proof -
  have a: "getTool (example_env t c outcome) (config_tool example_block) = Some t" for t c outcome
    by (simp add: example_env_def example_block_def)
  have b: "executeTool (example_env t c outcome) x y z w v = outcome" for t c outcome x y z w v
    by (simp add: example_env_def)
  have n: "metadata_name example_block = Some ''Vault''"
    by (simp add: metadata_name_def example_block_def)
  have t: "isCredentialRefreshError
             (''Block execution of '' @ ''invalid_rapt probe'' @ '' failed with no error message'')"
    by code_simp
  have p: "enhanceCredentialError ''undefined (undefined)'' = ''undefined (undefined)''"
    by (simp add: enhanceCredentialError_def blank_no_trigger)
  have 1: "map_sum message id
     (execute (example_env example_tool (example_blockConfig None None)
        (Inr \<lparr> res_success = False, res_output = JUndefined, res_error = Some ''undefined (undefined)'' \<rparr>))
        example_ctx example_block Map.empty)
     = Inl ''Block execution of Vault Create Matter failed: Vault''"
    by (simp add: execute_reaches_tool [OF a example_finalize_plain] b
        handleCaught_failure_message failureMessage_eq p
        synthesizedMessage_no_status n toolLabel_def example_tool_def)
  have 2: "map_sum message id
       (execute (example_env \<lparr> tool_name = ''invalid_rapt probe'' \<rparr> (example_blockConfig None None)
          (Inr \<lparr> res_success = False, res_output = JUndefined, res_error = None \<rparr>))
          example_ctx example_block Map.empty)
     = Inl REMEDIATION"
    using t
    by (simp add: execute_reaches_tool [OF a example_finalize_plain] b
        handleCaught_failure_message failureMessage_eq
        toolLabel_def enhanceCredentialError_def REMEDIATION_not_blank)
  from 1 p 2 show ?thesis by (intro conjI)
qed

subsection \<open>Enhancing twice\<close>

text \<open>
  C9. The credential-error enhancement is idempotent: enhancing twice is enhancing once,
  because the remediation message contains none of the trigger substrings. In particular,
  for a result with \<open>success\<close> false whose error string is not empty (and not the
  placeholder), the message enhanced when the error is built is left as it is by the
  enhancement of the catch block, and is the message of the error \<open>execute\<close> throws.
\<close>

theorem enhanceCredentialError_idempotent:
  "enhanceCredentialError (enhanceCredentialError s) = enhanceCredentialError s
   \<and> \<not> isCredentialRefreshError REMEDIATION
   \<and> (getTool env (config_tool block) = Some tool \<longrightarrow>
      finalizeInputs env block inputs = Inr finalInputs \<longrightarrow>
      executeTool env (config_tool block)
        (toolParams ctx finalInputs) False False ctx = Inr result \<longrightarrow>
      \<not> res_success result \<longrightarrow>
      res_error result = Some e \<longrightarrow> e \<noteq> [] \<longrightarrow> e \<noteq> ''undefined (undefined)'' \<longrightarrow>
        message (failureError (rt env) tool block result) = enhanceCredentialError e \<and>
        message (enhanceThrown (failureError (rt env) tool block result)) = enhanceCredentialError e \<and>
        (\<exists>err. execute env ctx block inputs = Inl err \<and> message err = enhanceCredentialError e))"
proof (intro conjI impI)
  show "enhanceCredentialError (enhanceCredentialError s) = enhanceCredentialError s"
    by (rule enhance_again)
  show "\<not> isCredentialRefreshError REMEDIATION"
    by (rule REMEDIATION_no_trigger)
next
  assume tool: "getTool env (config_tool block) = Some tool"
    and fin: "finalizeInputs env block inputs = Inr finalInputs"
    and call: "executeTool env (config_tool block)
        (toolParams ctx finalInputs) False False ctx = Inr result"
    and fail: "\<not> res_success result"
    and e: "res_error result = Some e" "e \<noteq> []" "e \<noteq> ''undefined (undefined)''"
  show built: "message (failureError (rt env) tool block result) = enhanceCredentialError e"
    using e by (simp add: failureError_fields failureMessage_eq)
  show "message (enhanceThrown (failureError (rt env) tool block result)) = enhanceCredentialError e"
    using e by (simp add: enhanceThrown_fields failureError_fields failureMessage_eq enhance_again)
  have "execute env ctx block inputs =
          Inl (handleCaught (rt env) tool block (failureError (rt env) tool block result))"
    using call fail by (simp add: execute_reaches_tool [OF tool fin])
  moreover have "message (handleCaught (rt env) tool block (failureError (rt env) tool block result))
                   = enhanceCredentialError e"
    using e by (simp add: handleCaught_failure_message failureMessage_eq enhance_again
        enhance_eq_placeholder)
  ultimately show "\<exists>err. execute env ctx block inputs = Inl err \<and> message err = enhanceCredentialError e"
    by simp
qed

text \<open>The theorem at a result with the error \<open>Invalid_RAPT\<close>.\<close>

theorem enhanceCredentialError_idempotent_witness:
  "getTool (example_env example_tool (example_blockConfig None None)
       (Inr \<lparr> res_success = False, res_output = JNull, res_error = Some ''Invalid_RAPT'' \<rparr>))
     (config_tool example_block) = Some example_tool
   \<and> message (failureError example_runtime example_tool example_block
        \<lparr> res_success = False, res_output = JNull, res_error = Some ''Invalid_RAPT'' \<rparr>) = REMEDIATION
   \<and> message (enhanceThrown (failureError example_runtime example_tool example_block
        \<lparr> res_success = False, res_output = JNull, res_error = Some ''Invalid_RAPT'' \<rparr>)) = REMEDIATION
   \<and> (\<exists>err. execute (example_env example_tool (example_blockConfig None None)
          (Inr \<lparr> res_success = False, res_output = JNull, res_error = Some ''Invalid_RAPT'' \<rparr>))
          example_ctx example_block Map.empty = Inl err
        \<and> message err = REMEDIATION)"
proof -
  let ?result = "\<lparr> res_success = False, res_output = JNull,
                    res_error = Some ''Invalid_RAPT'' \<rparr> :: example_num ToolResult"
  let ?env = "example_env example_tool (example_blockConfig None None) (Inr ?result)"
  have tool: "getTool ?env (config_tool example_block) = Some example_tool"
    by (simp add: example_env_def example_block_def)
  have fin: "finalizeInputs ?env example_block Map.empty = Inr Map.empty"
    by (rule example_finalize_plain)
  have call: "executeTool ?env (config_tool example_block)
                 (toolParams example_ctx Map.empty) False False example_ctx = Inr ?result"
    by (simp add: example_env_def)
  have r: "rt ?env = example_runtime"
    by (simp add: example_env_def)
  have trig: "enhanceCredentialError ''Invalid_RAPT'' = REMEDIATION"
    by code_simp
  have "message (failureError (rt ?env) example_tool example_block ?result)
          = enhanceCredentialError ''Invalid_RAPT'' \<and>
        message (enhanceThrown (failureError (rt ?env) example_tool example_block ?result))
          = enhanceCredentialError ''Invalid_RAPT'' \<and>
        (\<exists>err. execute ?env example_ctx example_block Map.empty = Inl err \<and>
               message err = enhanceCredentialError ''Invalid_RAPT'')"
    using enhanceCredentialError_idempotent
      [of "''x''" ?env example_block example_tool Map.empty Map.empty example_ctx ?result
          "''Invalid_RAPT''"]
      tool fin call
    by simp
  then show ?thesis
    using tool by (simp add: r trig)
qed


subsection \<open>Finalized inputs\<close>

text \<open>One pass of the coercion loop, on the value of a key.\<close>

lemma coerceInputs_other:
  "key \<notin> fst ` set schemas \<Longrightarrow> coerceInputs parse schemas m key = m key"
proof (induction schemas arbitrary: m)
  case Nil
  then show ?case by simp
next
  case (Cons entry schemas)
  obtain k sch where entry: "entry = (k, sch)" by (cases entry)
  with Cons.prems have "k \<noteq> key" "key \<notin> fst ` set schemas" by auto
  with Cons.IH [of _] entry show ?case
    by (auto simp: Let_def split: option.split jsval.split)
qed

lemma coerceInputs_key:
  assumes "distinct (map fst schemas)" and "(key, inputSchema) \<in> set schemas"
    and "inputType_of inputSchema = ''json'' \<or> inputType_of inputSchema = ''array''"
    and "m key = Some (JStr v)"
  shows "coerceInputs parse schemas m key =
           Some (if trim v = [] then JStr v
                 else case parse (trim v) of Some parsed \<Rightarrow> parsed | None \<Rightarrow> JStr v)"
  using assms
proof (induction schemas arbitrary: m)
  case Nil
  then show ?case by simp
next
  case (Cons entry schemas)
  obtain k sch where entry: "entry = (k, sch)" by (cases entry)
  show ?case
  proof (cases "k = key")
    case True
    with Cons.prems entry have out: "key \<notin> fst ` set schemas" and sch: "sch = inputSchema"
      by (auto simp: rev_image_eqI)
    show ?thesis
      using Cons.prems(3,4) True sch
      by (auto simp: entry coerceInputs_other [OF out] Let_def split: option.split)
  next
    case False
    with Cons.prems entry have d: "distinct (map fst schemas)"
      and mem: "(key, inputSchema) \<in> set schemas" by auto
    let ?m' = "(case m k of
          Some (JStr w) \<Rightarrow>
            if length (trim w) > 0 then
              let inputType = inputType_of sch in
              if inputType = ''json'' \<or> inputType = ''array'' then
                (case parse (trim w) of
                   Some parsed \<Rightarrow> m(k \<mapsto> parsed)
                 | None \<Rightarrow> m)
              else m
            else m
        | _ \<Rightarrow> m)"
    have "?m' key = m key"
      using False by (auto simp: Let_def split: option.split jsval.split)
    then have "?m' key = Some (JStr v)" using Cons.prems(4) by simp
    from Cons.IH [of ?m', OF d mem Cons.prems(3) this] show ?thesis
      by (simp add: entry)
  qed
qed


lemma finalizeInputs_eq:
  assumes "metadata block = Some md" and "meta_id md \<noteq> []"
    and "getBlock env (meta_id md) = Some blockConfig"
    and "transformInputs (rt env) blockConfig inputs = Inr transformed"
  shows "finalizeInputs env block inputs =
     Inr (case config_inputs blockConfig of
            None \<Rightarrow> transformed
          | Some schemas \<Rightarrow> coerceInputs (JSON_parse (rt env)) schemas transformed)"
  using assms by (simp add: finalizeInputs_def split: option.split)

text \<open>
  C3. For a field that the block configuration declares with type \<open>json\<close> or \<open>array\<close>
  and whose value, when the coercion loop starts, is a string: the finalized inputs hold
  the parse of the trimmed string when it parses, and the original string when the parse
  throws or when the string is blank. Nothing is thrown by this step: when the tool is
  resolved, \<open>execute\<close> calls the tool with the finalized inputs, and its outcome is the
  one that follows from the call.
\<close>

theorem structured_inputs_coerced:
  assumes md: "metadata block = Some md" "meta_id md \<noteq> []"
    and cfg: "getBlock env (meta_id md) = Some blockConfig"
    and schemas: "config_inputs blockConfig = Some schemas" "distinct (map fst schemas)"
    and entry: "(key, inputSchema) \<in> set schemas"
    and structured: "inputType_of inputSchema = ''json'' \<or> inputType_of inputSchema = ''array''"
    and transformed: "transformInputs (rt env) blockConfig inputs = Inr transformed"
    and supplied: "transformed key = Some (JStr v)"
    and tool: "getTool env (config_tool block) = Some tool"
  shows "\<exists>finalInputs.
       finalizeInputs env block inputs = Inr finalInputs
     \<and> finalInputs key =
           Some (if trim v = [] then JStr v
                 else case JSON_parse (rt env) (trim v) of
                        Some parsed \<Rightarrow> parsed
                      | None \<Rightarrow> JStr v)
     \<and> execute env ctx block inputs =
         (case executeTool env (config_tool block)
                 (toolParams ctx finalInputs) False False ctx of
            Inl error \<Rightarrow> Inl (handleCaught (rt env) tool block error)
          | Inr result \<Rightarrow>
              if \<not> res_success result
              then Inl (handleCaught (rt env) tool block (failureError (rt env) tool block result))
              else Inr (successValue (rt env) (res_output result)))"
proof (intro exI conjI)
  show fin: "finalizeInputs env block inputs =
          Inr (coerceInputs (JSON_parse (rt env)) schemas transformed)"
    by (simp add: finalizeInputs_eq [OF md cfg transformed] schemas(1))
  show "coerceInputs (JSON_parse (rt env)) schemas transformed key =
           Some (if trim v = [] then JStr v
                 else case JSON_parse (rt env) (trim v) of
                        Some parsed \<Rightarrow> parsed
                      | None \<Rightarrow> JStr v)"
    by (rule coerceInputs_key [where m = transformed, OF schemas(2) entry structured supplied])
  show "execute env ctx block inputs =
         (case executeTool env (config_tool block)
                 (toolParams ctx (coerceInputs (JSON_parse (rt env)) schemas transformed))
                 False False ctx of
            Inl error \<Rightarrow> Inl (handleCaught (rt env) tool block error)
          | Inr result \<Rightarrow>
              if \<not> res_success result
              then Inl (handleCaught (rt env) tool block (failureError (rt env) tool block result))
              else Inr (successValue (rt env) (res_output result)))"
    by (rule execute_reaches_tool [OF tool fin])
qed

lemma example_trims:
  \<open>trim ''  {"a":1} '' = ''{"a":1}''\<close> \<open>trim ''{a:'' = ''{a:''\<close>
  by (simp_all add: trim_def isWhiteSpace_def)

text \<open>
  The theorem on the example schemas: a JSON text is replaced by the parsed object, a
  malformed one is kept.
\<close>

theorem structured_inputs_coerced_witness:
  \<open>(\<exists>finalInputs.
       finalizeInputs
         (example_env example_tool (example_blockConfig None (Some example_schemas))
            (Inl (new_Error [])))
         example_block [''payload'' \<mapsto> JStr ''  {"a":1} '', ''terms'' \<mapsto> JStr ''{a:'']
         = Inr finalInputs
     \<and> finalInputs ''payload'' = Some (JObj [(''a'', JNum One)]))
   \<and> (\<exists>finalInputs.
       finalizeInputs
         (example_env example_tool (example_blockConfig None (Some example_schemas))
            (Inl (new_Error [])))
         example_block [''payload'' \<mapsto> JStr ''  {"a":1} '', ''terms'' \<mapsto> JStr ''{a:'']
         = Inr finalInputs
     \<and> finalInputs ''terms'' = Some (JStr ''{a:''))\<close>
proof -
  let ?cfg = "example_blockConfig None (Some example_schemas)"
  let ?env = "example_env example_tool ?cfg (Inl (new_Error []))"
  let ?inputs = \<open>[''payload'' \<mapsto> JStr ''  {"a":1} '', ''terms'' \<mapsto> JStr ''{a:'']
                   :: string \<rightharpoonup> example_num jsval\<close>
  let ?md = "\<lparr> meta_id = ''google_vault'', meta_name = Some ''Vault'' \<rparr>"
  have md: "metadata example_block = Some ?md" "meta_id ?md \<noteq> []"
    by (simp_all add: example_block_def)
  have cfg: "getBlock ?env (meta_id ?md) = Some ?cfg"
    by (simp add: example_env_def)
  have schemas: "config_inputs ?cfg = Some example_schemas" "distinct (map fst example_schemas)"
    by (simp_all add: example_blockConfig_def example_schemas_def)
  have e1: "(''payload'', SchemaObject ''json'') \<in> set example_schemas"
    and e2: "(''terms'', SchemaType ''array'') \<in> set example_schemas"
    by (simp_all add: example_schemas_def)
  have s1: "inputType_of (SchemaObject ''json'') = ''json'' \<or>
            inputType_of (SchemaObject ''json'') = ''array''"
    and s2: "inputType_of (SchemaType ''array'') = ''json'' \<or>
             inputType_of (SchemaType ''array'') = ''array''"
    by (simp_all add: inputType_of_def)
  have t: "transformInputs (rt ?env) ?cfg ?inputs = Inr ?inputs"
    by (simp add: transformInputs_def example_blockConfig_def)
  have v1: \<open>?inputs ''payload'' = Some (JStr ''  {"a":1} '')\<close>
    and v2: "?inputs ''terms'' = Some (JStr ''{a:'')"
    by simp_all
  have tool: "getTool ?env (config_tool example_block) = Some example_tool"
    by (simp add: example_env_def example_block_def)
  have r: "JSON_parse (rt ?env) = JSON_parse example_runtime"
    by (simp add: example_env_def)
  from structured_inputs_coerced [OF md cfg schemas e1 s1 t v1 tool, of example_ctx]
  have 1: \<open>\<exists>finalInputs. finalizeInputs ?env example_block ?inputs = Inr finalInputs
             \<and> finalInputs ''payload'' = Some (JObj [(''a'', JNum One)])\<close>
    by (auto simp: example_trims r example_runtime_def)
  from structured_inputs_coerced [OF md cfg schemas e2 s2 t v2 tool, of example_ctx]
  have 2: \<open>\<exists>finalInputs. finalizeInputs ?env example_block ?inputs = Inr finalInputs
             \<and> finalInputs ''terms'' = Some (JStr ''{a:'')\<close>
    by (auto simp: example_trims r example_runtime_def)
  from 1 2 show ?thesis by (intro conjI)
qed

subsection \<open>The parameter transformation\<close>

lemma transformInputs_cases:
  assumes "tools_config_params blockConfig = Some params"
  shows "transformInputs r blockConfig inputs =
     (case params inputs of
        Inr transformedParams \<Rightarrow> Inr (inputs ++ transformedParams)
      | Inl (ThrownError m) \<Rightarrow> Inr inputs
      | Inl (ThrownValue v) \<Rightarrow> Inr inputs
      | Inl (ThrownUnconvertible e) \<Rightarrow> Inl e)"
  using assms
  by (simp add: transformInputs_def errorDetail_def split: sum.split thrown.split)

text \<open>
  C4. The claim is that a failure of the parameter transformation is never fatal to
  \<open>execute\<close>. The code does not keep it: the handler that logs the failure coerces a thrown
  value that is no \<open>Error\<close> with \<open>String\<close>, outside of any \<open>try\<close>. For a transformation
  that throws an object which \<open>String\<close> cannot coerce, the exception of the coercion leaves
  \<open>execute\<close> and the tool, which would have succeeded, is not called; for one that throws
  an \<open>Error\<close>, the tool is called with the raw inputs and its output is returned.
\<close>

theorem parameter_transform_throw_escapes:
  "execute
     (example_env example_tool
        (example_blockConfig
           (Some (\<lambda>i. Inl (ThrownUnconvertible (new_Error ''Cannot convert object to primitive value''))))
           None)
        (Inr \<lparr> res_success = True, res_output = JStr ''done'', res_error = None \<rparr>))
     example_ctx example_block [''name'' \<mapsto> JStr ''M'']
     = Inl (new_Error ''Cannot convert object to primitive value'')
   \<and> execute
     (example_env example_tool
        (example_blockConfig (Some (\<lambda>i. Inl (ThrownError ''boom''))) None)
        (Inr \<lparr> res_success = True, res_output = JStr ''done'', res_error = None \<rparr>))
     example_ctx example_block [''name'' \<mapsto> JStr ''M'']
     = Inr (JStr ''done'')"
proof -
  have tool: "getTool (example_env example_tool c outcome) (config_tool example_block) = Some example_tool"
    for c outcome
    by (simp add: example_env_def example_block_def)
  have params: "tools_config_params (example_blockConfig (Some f) None) = Some f" for f
    by (simp add: example_blockConfig_def)
  have fin: "finalizeInputs (example_env example_tool (example_blockConfig (Some f) None) outcome)
               example_block inputs
             = transformInputs example_runtime (example_blockConfig (Some f) None) inputs"
    for f outcome inputs
    by (simp add: finalizeInputs_def example_env_def example_block_def example_blockConfig_def
        split: sum.split)
  have call: "executeTool (example_env t c outcome) x y z w v = outcome" for t c outcome x y z w v
    by (simp add: example_env_def)
  have 1: "execute
     (example_env example_tool
        (example_blockConfig
           (Some (\<lambda>i. Inl (ThrownUnconvertible (new_Error ''Cannot convert object to primitive value''))))
           None)
        (Inr \<lparr> res_success = True, res_output = JStr ''done'', res_error = None \<rparr>))
     example_ctx example_block [''name'' \<mapsto> JStr ''M'']
     = Inl (new_Error ''Cannot convert object to primitive value'')"
    by (simp add: execute_def tool fin transformInputs_cases [OF params])
  have 2: "execute
     (example_env example_tool
        (example_blockConfig (Some (\<lambda>i. Inl (ThrownError ''boom''))) None)
        (Inr \<lparr> res_success = True, res_output = JStr ''done'', res_error = None \<rparr>))
     example_ctx example_block [''name'' \<mapsto> JStr ''M'']
     = Inr (JStr ''done'')"
    by (simp add: execute_def tool fin transformInputs_cases [OF params] tryBlock_def call
        successValue_def)
  from 1 2 show ?thesis by (intro conjI)
qed

section \<open>Properties of the date model\<close>

lemma parse_example_timestamp:
  "parse_utc_timestamp ''2024-03-05T00:00:00Z'' = Some 1709596800000"
  by code_simp

lemma format_day_19787:
  assumes "t div 86400000 = 19787"
  shows "format_MMM_d_yyyy t = ''Mar 5, 2024''"
proof -
  have "format_MMM_d_yyyy (19787 * 86400000) = ''Mar 5, 2024''"
    by code_simp
  moreover have "format_MMM_d_yyyy t = format_MMM_d_yyyy (19787 * 86400000)"
    using assms by (simp add: format_MMM_d_yyyy_def)
  ultimately show ?thesis by simp
qed

lemma format_day_19786:
  assumes "t div 86400000 = 19786"
  shows "format_MMM_d_yyyy t = ''Mar 4, 2024''"
proof -
  have "format_MMM_d_yyyy (19786 * 86400000) = ''Mar 4, 2024''"
    by code_simp
  moreover have "format_MMM_d_yyyy t = format_MMM_d_yyyy (19786 * 86400000)"
    using assms by (simp add: format_MMM_d_yyyy_def)
  ultimately show ?thesis by simp
qed

lemma day_east:
  "0 \<le> off \<Longrightarrow> off < 1440 \<Longrightarrow> ((1709596800000::int) + off * 60000) div 86400000 = 19787"
  by linarith

lemma day_west:
  "- 1440 \<le> off \<Longrightarrow> off < 0 \<Longrightarrow> ((1709596800000::int) + off * 60000) div 86400000 = 19786"
  by linarith

lemma date_format_example_timestamp:
  "date_format r (JStr ''2024-03-05T00:00:00Z'') =
     Some (format_MMM_d_yyyy (1709596800000 + tz_offset_minutes r 1709596800000 * 60000))"
  by (simp add: date_format_def time_value_def parse_example_timestamp)

lemma date_format_east:
  assumes "0 \<le> tz_offset_minutes r 1709596800000" and "tz_offset_minutes r 1709596800000 < 1440"
  shows "date_format r (JStr ''2024-03-05T00:00:00Z'') = Some ''Mar 5, 2024''"
  by (simp only: date_format_example_timestamp format_day_19787 [OF day_east [OF assms]])

lemma date_format_west:
  assumes "- 1440 \<le> tz_offset_minutes r 1709596800000" and "tz_offset_minutes r 1709596800000 < 0"
  shows "date_format r (JStr ''2024-03-05T00:00:00Z'') = Some ''Mar 4, 2024''"
  by (simp only: date_format_example_timestamp format_day_19786 [OF day_west [OF assms]])

lemma example_date:
  "date_format example_runtime (JStr ''2024-03-05T00:00:00Z'') = Some ''Mar 5, 2024''"
  by (rule date_format_east) (simp_all add: example_runtime_def)

lemma example_zero: "num_toLocaleString example_runtime Zero = ''0''"
  by (simp add: example_runtime_def)


section \<open>Properties of the tag cell renderer\<close>

subsection \<open>The sequence of tags\<close>

lemma slotTag_slot: "slotTag r document tagDefinitions s = Some t \<Longrightarrow> slot t = s"
  by (auto simp: slotTag_def Let_def split: if_splits)

lemma tagsLoop_slots:
  "map slot (tagsLoop r document tagDefinitions ss) =
     filter (\<lambda>s. slotTag r document tagDefinitions s \<noteq> None) ss"
  by (induction ss) (auto simp: slotTag_slot split: option.split)

lemma tagsLoop_set:
  "set (tagsLoop r document tagDefinitions ss) =
     {t. \<exists>s \<in> set ss. slotTag r document tagDefinitions s = Some t}"
  by (induction ss) (auto split: option.splits)

lemma slotTag_eq_None:
  "slotTag r document tagDefinitions s = None \<longleftrightarrow>
     document s = JNull \<or> document s = JUndefined \<or>
     formatTagValue r (document s)
       (case find (\<lambda>d. def_tagSlot d = s) tagDefinitions of
          Some d \<Rightarrow> if def_fieldType d \<noteq> [] then def_fieldType d else getFieldType s
        | None \<Rightarrow> getFieldType s) = []"
  by (simp add: slotTag_def Let_def)

lemma slotTag_Some:
  assumes "slotTag r document tagDefinitions s = Some t"
  shows "fieldType t =
           (case find (\<lambda>d. def_tagSlot d = s) tagDefinitions of
              Some d \<Rightarrow> if def_fieldType d \<noteq> [] then def_fieldType d else getFieldType s
            | None \<Rightarrow> getFieldType s)"
    and "displayName t =
           (case find (\<lambda>d. def_tagSlot d = s) tagDefinitions of
              Some d \<Rightarrow> if def_displayName d \<noteq> [] then def_displayName d else s
            | None \<Rightarrow> s)"
    and "formatted t = formatTagValue r (document s) (fieldType t)"
    and "formatted t \<noteq> []"
  using assms by (auto simp: slotTag_def Let_def split: if_splits)

lemma getFieldType_slots:
  "map getFieldType TAG_SLOTS =
     replicate 7 ''text'' @ replicate 5 ''number'' @ replicate 2 ''date'' @ replicate 3 ''boolean''"
  by (simp add: TAG_SLOTS_def getFieldType_def numeral_eq_Suc)

lemma example_tags:
  "tags example_runtime example_document [] =
     [\<lparr> slot = ''tag2'', displayName = ''tag2'', formatted = ''alpha'', fieldType = ''text'' \<rparr>,
      \<lparr> slot = ''number1'', displayName = ''number1'', formatted = ''0'', fieldType = ''number'' \<rparr>,
      \<lparr> slot = ''date1'', displayName = ''date1'', formatted = ''Mar 5, 2024'', fieldType = ''date'' \<rparr>,
      \<lparr> slot = ''boolean1'', displayName = ''boolean1'', formatted = ''No'', fieldType = ''boolean'' \<rparr>]"
  by (simp add: tags_def TAG_SLOTS_def slotTag_def example_document_def getFieldType_def
      formatTagValue_def example_date example_zero)


text \<open>
  C6 (as amended). The slots of the tags are the slots of \<open>TAG_SLOTS\<close>, in the order of
  \<open>TAG_SLOTS\<close>, whose stored value is neither \<open>null\<close> nor \<open>undefined\<close> and whose
  formatted value is not empty. The field type of a tag is the one of the first definition
  for its slot when there is one and its field type is not empty, and the type inferred
  from the slot name otherwise (\<open>text\<close> for the seven tag slots, \<open>number\<close>, \<open>date\<close> and
  \<open>boolean\<close> for the others); its display name is the one of that definition when there
  is one and its display name is not empty, and the slot name otherwise; its value is the
  stored value formatted for the field type.
\<close>

theorem tags_in_slot_order:
  "map slot (tags r document tagDefinitions) =
     filter (\<lambda>s. document s \<noteq> JNull \<and> document s \<noteq> JUndefined \<and>
                 formatTagValue r (document s)
                   (case find (\<lambda>d. def_tagSlot d = s) tagDefinitions of
                      Some d \<Rightarrow> if def_fieldType d \<noteq> [] then def_fieldType d else getFieldType s
                    | None \<Rightarrow> getFieldType s) \<noteq> [])
       TAG_SLOTS
   \<and> (\<forall>t \<in> set (tags r document tagDefinitions).
         fieldType t =
           (case find (\<lambda>d. def_tagSlot d = slot t) tagDefinitions of
              Some d \<Rightarrow> if def_fieldType d \<noteq> [] then def_fieldType d else getFieldType (slot t)
            | None \<Rightarrow> getFieldType (slot t)) \<and>
         displayName t =
           (case find (\<lambda>d. def_tagSlot d = slot t) tagDefinitions of
              Some d \<Rightarrow> if def_displayName d \<noteq> [] then def_displayName d else slot t
            | None \<Rightarrow> slot t) \<and>
         formatted t = formatTagValue r (document (slot t)) (fieldType t))
   \<and> map getFieldType TAG_SLOTS =
       replicate 7 ''text'' @ replicate 5 ''number'' @ replicate 2 ''date'' @ replicate 3 ''boolean''"
proof (intro conjI ballI)
  show "map slot (tags r document tagDefinitions) =
     filter (\<lambda>s. document s \<noteq> JNull \<and> document s \<noteq> JUndefined \<and>
                 formatTagValue r (document s)
                   (case find (\<lambda>d. def_tagSlot d = s) tagDefinitions of
                      Some d \<Rightarrow> if def_fieldType d \<noteq> [] then def_fieldType d else getFieldType s
                    | None \<Rightarrow> getFieldType s) \<noteq> [])
       TAG_SLOTS"
    by (simp add: tags_def tagsLoop_slots slotTag_eq_None)
  show "map getFieldType TAG_SLOTS =
       replicate 7 ''text'' @ replicate 5 ''number'' @ replicate 2 ''date'' @ replicate 3 ''boolean''"
    by (rule getFieldType_slots)
next
  fix t assume "t \<in> set (tags r document tagDefinitions)"
  then obtain s where s: "slotTag r document tagDefinitions s = Some t"
    by (auto simp: tags_def tagsLoop_set)
  with slotTag_slot [OF s] have s': "slotTag r document tagDefinitions (slot t) = Some t"
    by simp
  show "fieldType t =
           (case find (\<lambda>d. def_tagSlot d = slot t) tagDefinitions of
              Some d \<Rightarrow> if def_fieldType d \<noteq> [] then def_fieldType d else getFieldType (slot t)
            | None \<Rightarrow> getFieldType (slot t))"
    by (rule slotTag_Some(1) [OF s'])
  show "displayName t =
           (case find (\<lambda>d. def_tagSlot d = slot t) tagDefinitions of
              Some d \<Rightarrow> if def_displayName d \<noteq> [] then def_displayName d else slot t
            | None \<Rightarrow> slot t)"
    by (rule slotTag_Some(2) [OF s'])
  show "formatted t = formatTagValue r (document (slot t)) (fieldType t)"
    by (rule slotTag_Some(3) [OF s'])
qed

text \<open>The theorem on the example document, which has no definitions.\<close>

theorem tags_in_slot_order_witness:
  "map slot (tags example_runtime example_document []) = [''tag2'', ''number1'', ''date1'', ''boolean1'']
   \<and> \<lparr> slot = ''date1'', displayName = ''date1'', formatted = ''Mar 5, 2024'', fieldType = ''date'' \<rparr>
       \<in> set (tags example_runtime example_document [])
   \<and> fieldType \<lparr> slot = ''date1'', displayName = ''date1'', formatted = ''Mar 5, 2024'', fieldType = ''date'' \<rparr>
       = getFieldType ''date1''"
proof -
  let ?t = "\<lparr> slot = ''date1'', displayName = ''date1'', formatted = ''Mar 5, 2024'', fieldType = ''date'' \<rparr>"
  have mem: "?t \<in> set (tags example_runtime example_document [])"
    by (simp add: example_tags)
  from tags_in_slot_order [of example_runtime example_document "[]"] mem
  have "fieldType ?t = getFieldType (slot ?t)"
    by (auto simp del: TagValue.simps)
  then show ?thesis
    using mem by (simp add: example_tags)
qed

text \<open>
  C6 as stated fails: a definition for \<open>boolean1\<close> exists, with an empty field type and
  an empty display name, and the tag has the inferred type \<open>boolean\<close> (so \<open>true\<close> is
  shown as \<open>Yes\<close>) and the slot name as its display name.
\<close>

theorem tags_definition_counterexample:
  "tags example_runtime (\<lambda>s. if s = ''boolean1'' then JBool True else JUndefined)
     [\<lparr> def_tagSlot = ''boolean1'', def_displayName = [], def_fieldType = [] \<rparr>]
     = [\<lparr> slot = ''boolean1'', displayName = ''boolean1'', formatted = ''Yes'', fieldType = ''boolean'' \<rparr>]
   \<and> find (\<lambda>d. def_tagSlot d = ''boolean1'')
       [\<lparr> def_tagSlot = ''boolean1'', def_displayName = [], def_fieldType = [] \<rparr>]
     = Some \<lparr> def_tagSlot = ''boolean1'', def_displayName = [], def_fieldType = [] \<rparr>"
  by (simp add: tags_def TAG_SLOTS_def slotTag_def getFieldType_def formatTagValue_def)

subsection \<open>Formatting\<close>

text \<open>
  C7 (as amended). The formatter is directed by the field type. For \<open>date\<close> the result
  is the date library's format of the date in the time zone of the runtime: the string
  \<open>2024-03-05T00:00:00Z\<close> gives \<open>Mar 5, 2024\<close> where local time is at or ahead of UTC
  at that instant and \<open>Mar 4, 2024\<close> where it is behind UTC, and a string that is no
  valid date is returned as it is. For \<open>boolean\<close>, \<open>true\<close> gives \<open>Yes\<close> and \<open>false\<close>
  gives \<open>No\<close>. For \<open>number\<close>, a number is formatted by the locale and any other value is
  coerced to a string. For every other type the value is coerced to a string. \<open>null\<close>
  and \<open>undefined\<close> give the empty string.
\<close>

theorem formatTagValue_by_type:
  "(\<forall>s. date_format r v = Some s \<longrightarrow> v \<noteq> JNull \<longrightarrow> v \<noteq> JUndefined \<longrightarrow>
        formatTagValue r v ''date'' = s)
   \<and> (0 \<le> tz_offset_minutes r 1709596800000 \<longrightarrow> tz_offset_minutes r 1709596800000 < 1440 \<longrightarrow>
        formatTagValue r (JStr ''2024-03-05T00:00:00Z'') ''date'' = ''Mar 5, 2024'')
   \<and> (- 1440 \<le> tz_offset_minutes r 1709596800000 \<longrightarrow> tz_offset_minutes r 1709596800000 < 0 \<longrightarrow>
        formatTagValue r (JStr ''2024-03-05T00:00:00Z'') ''date'' = ''Mar 4, 2024'')
   \<and> (time_value r (JStr x) = None \<longrightarrow> formatTagValue r (JStr x) ''date'' = x)
   \<and> formatTagValue r (JBool True) ''boolean'' = ''Yes''
   \<and> formatTagValue r (JBool False) ''boolean'' = ''No''
   \<and> formatTagValue r (JNum n) ''number'' = num_toLocaleString r n
   \<and> ((\<forall>m. v \<noteq> JNum m) \<longrightarrow> v \<noteq> JNull \<longrightarrow> v \<noteq> JUndefined \<longrightarrow>
        formatTagValue r v ''number'' = String_of r v)
   \<and> (ft \<noteq> ''date'' \<longrightarrow> ft \<noteq> ''boolean'' \<longrightarrow> ft \<noteq> ''number'' \<longrightarrow>
        v \<noteq> JNull \<longrightarrow> v \<noteq> JUndefined \<longrightarrow> formatTagValue r v ft = String_of r v)
   \<and> formatTagValue r JNull ft = [] \<and> formatTagValue r JUndefined ft = []"
proof -
  have east: "0 \<le> tz_offset_minutes r 1709596800000 \<longrightarrow> tz_offset_minutes r 1709596800000 < 1440 \<longrightarrow>
        formatTagValue r (JStr ''2024-03-05T00:00:00Z'') ''date'' = ''Mar 5, 2024''"
    by (simp add: formatTagValue_def date_format_east)
  have west: "- 1440 \<le> tz_offset_minutes r 1709596800000 \<longrightarrow> tz_offset_minutes r 1709596800000 < 0 \<longrightarrow>
        formatTagValue r (JStr ''2024-03-05T00:00:00Z'') ''date'' = ''Mar 4, 2024''"
    by (simp add: formatTagValue_def date_format_west)
  have invalid: "time_value r (JStr x) = None \<longrightarrow> formatTagValue r (JStr x) ''date'' = x"
    by (simp add: formatTagValue_def date_format_def)
  have rest: "(\<forall>s. date_format r v = Some s \<longrightarrow> v \<noteq> JNull \<longrightarrow> v \<noteq> JUndefined \<longrightarrow>
        formatTagValue r v ''date'' = s)
   \<and> formatTagValue r (JBool True) ''boolean'' = ''Yes''
   \<and> formatTagValue r (JBool False) ''boolean'' = ''No''
   \<and> formatTagValue r (JNum n) ''number'' = num_toLocaleString r n
   \<and> ((\<forall>m. v \<noteq> JNum m) \<longrightarrow> v \<noteq> JNull \<longrightarrow> v \<noteq> JUndefined \<longrightarrow>
        formatTagValue r v ''number'' = String_of r v)
   \<and> (ft \<noteq> ''date'' \<longrightarrow> ft \<noteq> ''boolean'' \<longrightarrow> ft \<noteq> ''number'' \<longrightarrow>
        v \<noteq> JNull \<longrightarrow> v \<noteq> JUndefined \<longrightarrow> formatTagValue r v ft = String_of r v)
   \<and> formatTagValue r JNull ft = [] \<and> formatTagValue r JUndefined ft = []"
    by (cases v) (simp_all add: formatTagValue_def)
  from east west invalid rest show ?thesis by blast
qed

text \<open>
  The theorem on the example runtime, which is in the time zone UTC, on the same runtime
  eight hours behind UTC, and on a string that is no date.
\<close>

theorem formatTagValue_by_type_witness:
  "tz_offset_minutes example_runtime 1709596800000 = 0
   \<and> formatTagValue example_runtime (JStr ''2024-03-05T00:00:00Z'') ''date'' = ''Mar 5, 2024''
   \<and> tz_offset_minutes (example_runtime\<lparr> tz_offset_minutes := (\<lambda>t. - 480) \<rparr>) 1709596800000 = - 480
   \<and> formatTagValue (example_runtime\<lparr> tz_offset_minutes := (\<lambda>t. - 480) \<rparr>)
       (JStr ''2024-03-05T00:00:00Z'') ''date'' = ''Mar 4, 2024''
   \<and> time_value example_runtime (JStr ''soon'') = None
   \<and> formatTagValue example_runtime (JStr ''soon'') ''date'' = ''soon''
   \<and> formatTagValue example_runtime (JStr ''soon'') ''number'' = ''soon''
   \<and> formatTagValue example_runtime (JBool True) ''text'' = ''true''"
proof -
  let ?west = "example_runtime\<lparr> tz_offset_minutes := (\<lambda>t. - 480) \<rparr>"
  have z: "tz_offset_minutes example_runtime 1709596800000 = 0"
    and w: "tz_offset_minutes ?west 1709596800000 = - 480"
    by (simp_all add: example_runtime_def)
  have d2: "time_value example_runtime (JStr ''soon'') = None"
    by (simp add: time_value_def parse_utc_timestamp_def example_runtime_def)
  note thm1 = formatTagValue_by_type
    [of example_runtime "JStr ''soon''" "''soon''" "One" "''text''"]
  note thm2 = formatTagValue_by_type
    [of example_runtime "JBool True" "''soon''" "One" "''text''"]
  note thm3 = formatTagValue_by_type
    [of ?west "JBool True" "''soon''" "One" "''text''"]
  from thm1 z have 1: "formatTagValue example_runtime (JStr ''2024-03-05T00:00:00Z'') ''date'' = ''Mar 5, 2024''"
    by simp
  from thm3 w have 5: "formatTagValue ?west (JStr ''2024-03-05T00:00:00Z'') ''date'' = ''Mar 4, 2024''"
    by simp
  from thm1 d2 have 2: "formatTagValue example_runtime (JStr ''soon'') ''date'' = ''soon''"
    by blast
  from thm1 have 3: "formatTagValue example_runtime (JStr ''soon'') ''number'' = ''soon''"
    by simp
  from thm2 have 4: "formatTagValue example_runtime (JBool True) ''text'' = ''true''"
    by simp
  from z 1 w 5 d2 2 3 4 show ?thesis by (intro conjI)
qed

text \<open>
  C7 as stated fails: in a runtime eight hours behind UTC (as on the west coast of North
  America in March) the string \<open>2024-03-05T00:00:00Z\<close> is formatted as \<open>Mar 4, 2024\<close>.
\<close>

theorem formatTagValue_date_counterexample:
  "formatTagValue (example_runtime\<lparr> tz_offset_minutes := (\<lambda>t. - 480) \<rparr>)
     (JStr ''2024-03-05T00:00:00Z'') ''date'' = ''Mar 4, 2024''"
proof -
  have "date_format (example_runtime\<lparr> tz_offset_minutes := (\<lambda>t. - 480) \<rparr>)
          (JStr ''2024-03-05T00:00:00Z'') = Some ''Mar 4, 2024''"
    by (rule date_format_west) simp_all
  then show ?thesis
    by (simp add: formatTagValue_def)
qed

subsection \<open>Absent values\<close>



subsection \<open>Rendering\<close>

lemma renderTags_cases:
  "renderTags ts =
     (if ts = [] then Placeholder
      else if length ts \<le> 2 then Cell (map inlineBadge ts) None
      else Cell (map inlineBadge (take 2 ts))
             (Some \<lparr> overflow_count = length ts - 2,
                      overflow_tooltip = join '', '' (map displayName (drop 2 ts)),
                      overflow_panel = map panelRow ts \<rparr>))"
  by (simp add: renderTags_def Let_def)

text \<open>
  C5. With no tag the component returns the placeholder. With one or two tags it shows all
  of them inline, without overflow. With more than two it shows the first two inline, a
  count badge with the number of the remaining tags, a tooltip with their names, and a
  panel that lists every tag, the first two included.
\<close>

theorem DocumentTagsCell_overflow:
  "(tags r document tagDefinitions = [] \<longrightarrow>
      DocumentTagsCell r document tagDefinitions = Placeholder)
   \<and> (tags r document tagDefinitions \<noteq> [] \<longrightarrow> length (tags r document tagDefinitions) \<le> 2 \<longrightarrow>
      DocumentTagsCell r document tagDefinitions =
        Cell (map inlineBadge (tags r document tagDefinitions)) None)
   \<and> (length (tags r document tagDefinitions) > 2 \<longrightarrow>
      DocumentTagsCell r document tagDefinitions =
        Cell [inlineBadge (tags r document tagDefinitions ! 0),
              inlineBadge (tags r document tagDefinitions ! 1)]
          (Some \<lparr> overflow_count = length (tags r document tagDefinitions) - 2,
                   overflow_tooltip =
                     join '', '' (map displayName (drop 2 (tags r document tagDefinitions))),
                   overflow_panel = map panelRow (tags r document tagDefinitions) \<rparr>))"
proof -
  let ?ts = "tags r document tagDefinitions"
  have two: "map inlineBadge (take 2 ?ts) = [inlineBadge (?ts ! 0), inlineBadge (?ts ! 1)]"
    if "length ?ts > 2"
  proof -
    from that obtain a b rest where "?ts = a # b # rest"
      by (cases ?ts; cases "tl ?ts") auto
    then show ?thesis by (simp add: numeral_2_eq_2)
  qed
  have 1: "?ts = [] \<longrightarrow> DocumentTagsCell r document tagDefinitions = Placeholder"
    by (simp add: DocumentTagsCell_def renderTags_cases)
  have 2: "?ts \<noteq> [] \<longrightarrow> length ?ts \<le> 2 \<longrightarrow>
      DocumentTagsCell r document tagDefinitions = Cell (map inlineBadge ?ts) None"
    by (simp add: DocumentTagsCell_def renderTags_cases)
  have 3: "length ?ts > 2 \<longrightarrow>
      DocumentTagsCell r document tagDefinitions =
        Cell [inlineBadge (?ts ! 0), inlineBadge (?ts ! 1)]
          (Some \<lparr> overflow_count = length ?ts - 2,
                   overflow_tooltip = join '', '' (map displayName (drop 2 ?ts)),
                   overflow_panel = map panelRow ?ts \<rparr>)"
  proof
    assume len: "length ?ts > 2"
    then have "?ts \<noteq> []" "\<not> length ?ts \<le> 2" by auto
    then show "DocumentTagsCell r document tagDefinitions =
        Cell [inlineBadge (?ts ! 0), inlineBadge (?ts ! 1)]
          (Some \<lparr> overflow_count = length ?ts - 2,
                   overflow_tooltip = join '', '' (map displayName (drop 2 ?ts)),
                   overflow_panel = map panelRow ?ts \<rparr>)"
      unfolding DocumentTagsCell_def renderTags_cases two [OF len] by simp
  qed
  from 1 2 3 show ?thesis by (intro conjI)
qed

text \<open>The theorem on documents with no tag, one tag and four tags.\<close>

theorem DocumentTagsCell_overflow_witness:
  "tags example_runtime (\<lambda>s. JUndefined) [] = []
   \<and> DocumentTagsCell example_runtime (\<lambda>s. JUndefined) [] = Placeholder
   \<and> length (tags example_runtime (\<lambda>s. if s = ''tag2'' then JStr ''alpha'' else JNull) []) = 1
   \<and> DocumentTagsCell example_runtime (\<lambda>s. if s = ''tag2'' then JStr ''alpha'' else JNull) [] =
       Cell [\<lparr> badge_key = ''tag2'', badge_text = ''alpha'', badge_tooltip = ''tag2: alpha'' \<rparr>] None
   \<and> length (tags example_runtime example_document []) = 4
   \<and> DocumentTagsCell example_runtime example_document [] =
       Cell [\<lparr> badge_key = ''tag2'', badge_text = ''alpha'', badge_tooltip = ''tag2: alpha'' \<rparr>,
             \<lparr> badge_key = ''number1'', badge_text = ''0'', badge_tooltip = ''number1: 0'' \<rparr>]
         (Some \<lparr> overflow_count = 2,
                  overflow_tooltip = ''date1, boolean1'',
                  overflow_panel =
                    [\<lparr> row_key = ''tag2'', row_label = ''tag2'', row_value = ''alpha'' \<rparr>,
                     \<lparr> row_key = ''number1'', row_label = ''number1'', row_value = ''0'' \<rparr>,
                     \<lparr> row_key = ''date1'', row_label = ''date1'', row_value = ''Mar 5, 2024'' \<rparr>,
                     \<lparr> row_key = ''boolean1'', row_label = ''boolean1'', row_value = ''No'' \<rparr>] \<rparr>)"
proof -
  have t0: "tags example_runtime (\<lambda>s. JUndefined) [] = []"
    by (simp add: tags_def TAG_SLOTS_def slotTag_def)
  have t1: "tags example_runtime (\<lambda>s. if s = ''tag2'' then JStr ''alpha'' else JNull) [] =
              [\<lparr> slot = ''tag2'', displayName = ''tag2'', formatted = ''alpha'', fieldType = ''text'' \<rparr>]"
    by (simp add: tags_def TAG_SLOTS_def slotTag_def getFieldType_def formatTagValue_def)
  note c0 = DocumentTagsCell_overflow [of example_runtime "\<lambda>s. JUndefined" "[]"]
  note c1 = DocumentTagsCell_overflow
    [of example_runtime "\<lambda>s. if s = ''tag2'' then JStr ''alpha'' else JNull" "[]"]
  note c4 = DocumentTagsCell_overflow [of example_runtime example_document "[]"]
  from c0 t0 have 0: "DocumentTagsCell example_runtime (\<lambda>s. JUndefined) [] = Placeholder"
    by simp
  from c1 have 1: "DocumentTagsCell example_runtime (\<lambda>s. if s = ''tag2'' then JStr ''alpha'' else JNull) [] =
       Cell [\<lparr> badge_key = ''tag2'', badge_text = ''alpha'', badge_tooltip = ''tag2: alpha'' \<rparr>] None"
    by (simp add: t1 inlineBadge_def)
  from c4 have 4: "DocumentTagsCell example_runtime example_document [] =
       Cell [\<lparr> badge_key = ''tag2'', badge_text = ''alpha'', badge_tooltip = ''tag2: alpha'' \<rparr>,
             \<lparr> badge_key = ''number1'', badge_text = ''0'', badge_tooltip = ''number1: 0'' \<rparr>]
         (Some \<lparr> overflow_count = 2,
                  overflow_tooltip = ''date1, boolean1'',
                  overflow_panel =
                    [\<lparr> row_key = ''tag2'', row_label = ''tag2'', row_value = ''alpha'' \<rparr>,
                     \<lparr> row_key = ''number1'', row_label = ''number1'', row_value = ''0'' \<rparr>,
                     \<lparr> row_key = ''date1'', row_label = ''date1'', row_value = ''Mar 5, 2024'' \<rparr>,
                     \<lparr> row_key = ''boolean1'', row_label = ''boolean1'', row_value = ''No'' \<rparr>] \<rparr>)"
    by (simp add: example_tags inlineBadge_def panelRow_def)
  have l1: "length (tags example_runtime (\<lambda>s. if s = ''tag2'' then JStr ''alpha'' else JNull) []) = 1"
    by (simp add: t1)
  have l4: "length (tags example_runtime example_document []) = 4"
    by (simp add: example_tags)
  from t0 0 l1 1 l4 4 show ?thesis by (intro conjI)
qed

section \<open>Properties of the matter-creation tool descriptor\<close>

lemma errorMessage_of_eq:
  "errorMessage_of r data =
     (if truthy r (get_prop (get_prop data ''error'') ''message'')
      then get_prop (get_prop data ''error'') ''message''
      else JStr ''Failed to create matter'')"
proof (cases "get_prop data ''error'' = JNull \<or> get_prop data ''error'' = JUndefined")
  case True
  then show ?thesis by (auto simp: errorMessage_of_def)
next
  case False
  then show ?thesis by (simp add: errorMessage_of_def Let_def)
qed

text \<open>
  C8 (as amended). The request of the descriptor is a \<open>POST\<close> to the fixed URL with the
  bearer token in the \<open>Authorization\<close> header and a body of the name and the optional
  description. When the body of the response parses as JSON to a value other than \<open>null\<close>
  and the response is not ok, \<open>transformResponse\<close> throws an error whose message is what
  the enhancement routine returns for the nested error message, or for the default
  \<open>Failed to create matter\<close> when there is none. When the body parses and the response is
  ok, it returns the parsed body under the output key \<open>matter\<close>.
\<close>

theorem createMattersTool_contract:
  "req_url (createMattersTool_request params :: 'n Request) = ''https://vault.googleapis.com/v1/matters''
   \<and> req_method (createMattersTool_request params :: 'n Request) = ''POST''
   \<and> map_of (req_headers (createMattersTool_request params :: 'n Request)) ''Authorization''
       = Some (''Bearer '' @ accessToken params)
   \<and> req_body (createMattersTool_request params :: 'n Request) =
       JObj [(''name'', JStr (name params)),
             (''description'', (case description params of None \<Rightarrow> JUndefined | Some d \<Rightarrow> JStr d))]
   \<and> (resp_json response = Inr data \<longrightarrow> \<not> resp_ok response \<longrightarrow>
        data \<noteq> JNull \<longrightarrow> data \<noteq> JUndefined \<longrightarrow>
        enhance (if truthy r (get_prop (get_prop data ''error'') ''message'')
                 then get_prop (get_prop data ''error'') ''message''
                 else JStr ''Failed to create matter'') = Inr m \<longrightarrow>
        transformResponse (r :: 'n runtime) enhance response = Inl (Error m))
   \<and> (resp_json response = Inr data \<longrightarrow> resp_ok response \<longrightarrow>
        transformResponse r enhance response =
          Inr \<lparr> tr_success = True, tr_output = JObj [(''matter'', data)] \<rparr>)"
  by (simp add: createMattersTool_request_def transformResponse_def errorMessage_of_eq)

text \<open>
  The theorem on a response with a nested message, one without, and a successful one,
  with an enhancement routine that puts a string in brackets.
\<close>

theorem createMattersTool_contract_witness:
  "transformResponse example_runtime (\<lambda>v. case v of JStr s \<Rightarrow> Inr (''['' @ s @ '']'') | _ \<Rightarrow> Inl ''thrown'')
     \<lparr> resp_ok = False,
       resp_json = Inr (JObj [(''error'', JObj [(''code'', JNum One), (''message'', JStr ''denied'')])]) \<rparr>
     = Inl (Error ''[denied]'')
   \<and> transformResponse example_runtime (\<lambda>v. case v of JStr s \<Rightarrow> Inr (''['' @ s @ '']'') | _ \<Rightarrow> Inl ''thrown'')
     \<lparr> resp_ok = False, resp_json = Inr (JObj []) \<rparr>
     = Inl (Error ''[Failed to create matter]'')
   \<and> transformResponse example_runtime (\<lambda>v. case v of JStr s \<Rightarrow> Inr (''['' @ s @ '']'') | _ \<Rightarrow> Inl ''thrown'')
     \<lparr> resp_ok = True, resp_json = Inr (JObj [(''matterId'', JStr ''m1'')]) \<rparr>
     = Inr \<lparr> tr_success = True, tr_output = JObj [(''matter'', JObj [(''matterId'', JStr ''m1'')])] \<rparr>"
proof -
  let ?enh = "(\<lambda>v. case v of JStr s \<Rightarrow> Inr (''['' @ s @ '']'') | _ \<Rightarrow> Inl ''thrown'')
                :: example_num jsval \<Rightarrow> string + string"
  let ?p = "\<lparr> accessToken = ''t'', name = ''n'', description = None \<rparr>"
  let ?d1 = "JObj [(''error'', JObj [(''code'', JNum One), (''message'', JStr ''denied'')])] :: example_num jsval"
  let ?d2 = "JObj [] :: example_num jsval"
  let ?d3 = "JObj [(''matterId'', JStr ''m1'')] :: example_num jsval"
  from createMattersTool_contract
    [of ?p "\<lparr> resp_ok = False, resp_json = Inr ?d1 \<rparr>" ?d1 ?enh example_runtime "''[denied]''"]
  have 1: "transformResponse example_runtime ?enh \<lparr> resp_ok = False, resp_json = Inr ?d1 \<rparr>
             = Inl (Error ''[denied]'')"
    by simp
  from createMattersTool_contract
    [of ?p "\<lparr> resp_ok = False, resp_json = Inr ?d2 \<rparr>" ?d2 ?enh example_runtime
        "''[Failed to create matter]''"]
  have 2: "transformResponse example_runtime ?enh \<lparr> resp_ok = False, resp_json = Inr ?d2 \<rparr>
             = Inl (Error ''[Failed to create matter]'')"
    by simp
  from createMattersTool_contract
    [of ?p "\<lparr> resp_ok = True, resp_json = Inr ?d3 \<rparr>" ?d3 ?enh example_runtime "''x''"]
  have 3: "transformResponse example_runtime ?enh \<lparr> resp_ok = True, resp_json = Inr ?d3 \<rparr>
             = Inr \<lparr> tr_success = True, tr_output = JObj [(''matter'', ?d3)] \<rparr>"
    by simp
  from 1 2 3 show ?thesis by (intro conjI)
qed

text \<open>
  C8 as stated fails: for a response that is not ok and whose body is not JSON, the
  rejection of \<open>response.json()\<close> is what is thrown, and for the body \<open>null\<close> a
  \<open>TypeError\<close>; neither is an error with the default message.
\<close>

theorem createMattersTool_counterexample:
  "transformResponse example_runtime (\<lambda>v. case v of JStr s \<Rightarrow> Inr s | _ \<Rightarrow> Inl ''TypeError in callee'')
     \<lparr> resp_ok = False, resp_json = Inl ''SyntaxError: Unexpected token < in JSON'' \<rparr>
     = Inl (Propagated ''SyntaxError: Unexpected token < in JSON'')
   \<and> transformResponse example_runtime (\<lambda>v. case v of JStr s \<Rightarrow> Inr s | _ \<Rightarrow> Inl ''TypeError in callee'')
     \<lparr> resp_ok = False, resp_json = Inr JNull \<rparr>
     = Inl TypeError"
  by (simp add: transformResponse_def)

end
